theory Spec2Isabelle
  imports Complex_Main
begin

section \<open>Data model of the simulation executor\<close>

text \<open>
  Exceptions of the Python code are values. \<open>KeyError\<close> is what \<open>initialize\<close> raises
  for a missing role and what a dictionary lookup raises; \<open>AttributeError\<close> is raised by
  reading an attribute that was never assigned; \<open>TypeError\<close> and
  \<open>DimensionMismatchError\<close> are the two errors the metric tests expect;
  \<open>BackendError\<close> stands for any other exception of the simulation library.
\<close>

datatype exn = KeyError | AttributeError | TypeError | DimensionMismatchError | BackendError

text \<open>A Python \<open>dict\<close> that is iterated over is an association list in insertion order.\<close>

type_synonym 'v dict = "(string \<times> 'v) list"

text \<open>
  A \<open>Network\<close> of the simulation library, as far as \<open>simulator.py\<close> uses it: the names
  of the objects it contains (\<open>'monitor' in network\<close>, \<open>network['neurons']\<close>), its
  current state \<open>live\<close> (state variables of the neuron group, recordings of the monitor,
  the clock) and the snapshot taken by \<open>store()\<close>. The state type \<open>'s\<close> is left open.
  The state of the random generator is not part of a network: \<open>restore()\<close>, called
  with its default arguments as \<open>simulator.py\<close> does, brings back the stored state of the
  network and leaves the generator as it is.
\<close>

record 's network =
  objects :: "string list"
  live :: 's
  stored :: "'s option"

definition network_contains :: "'s network \<Rightarrow> string \<Rightarrow> bool" where
  "network_contains net item = (item \<in> set (objects net))"

definition store :: "'s network \<Rightarrow> 's network" where
  "store net = net\<lparr>stored := Some (live net)\<rparr>"

definition restore :: "'s network \<Rightarrow> exn + 's network" where
  "restore net =
     (case stored net of
        None \<Rightarrow> Inl KeyError
      | Some snap \<Rightarrow> Inr (net\<lparr>live := snap\<rparr>))"

text \<open>
  The operations of the simulation library that \<open>simulator.py\<close> calls and whose bodies
  are not part of this repository are parameters of the model. Each one that can raise
  returns the exception (if any) together with the state as it left it.
  \<^item> \<open>group_set_states\<close>: \<open>network['neurons'].set_states(params, units=False)\<close>;
  \<^item> \<open>group_setattr\<close>: \<open>network['neurons'].__setattr__(k, v)\<close>;
  \<^item> \<open>group_has_variable\<close>: whether \<open>neurons.__getattr__(name)\<close> finds a variable;
  \<^item> \<open>network_advance\<close>: the simulation of the network for a duration; it reads and
    advances the random generator (of type \<open>'g\<close>) besides the state of the network;
  \<^item> \<open>get_array_name\<close>: \<open>device.get_array_name(variable)\<close>;
  \<^item> \<open>static_array_id\<close>: the identifier \<open>device.static_array\<close> allocates for an array
    name, given the storage so far;
  \<^item> \<open>atleast_1d\<close>: numpy's coercion to at least one dimension;
  \<^item> \<open>set_by_array\<close>: what a queued \<open>'set_by_array'\<close> write does at the start of the
    generated program: the array of that name takes the contents of the static array.
\<close>

record ('s, 'v, 'd, 'g) brian2 =
  group_set_states :: "'v dict \<Rightarrow> 's \<Rightarrow> exn option \<times> 's"
  group_setattr :: "string \<Rightarrow> 'v \<Rightarrow> 's \<Rightarrow> exn option \<times> 's"
  group_has_variable :: "string \<Rightarrow> 's \<Rightarrow> bool"
  network_advance :: "'d \<Rightarrow> 's \<Rightarrow> 'g \<Rightarrow> exn option \<times> 's \<times> 'g"
  get_array_name :: "string \<Rightarrow> string"
  static_array_id :: "string \<Rightarrow> (string \<rightharpoonup> 'v) \<Rightarrow> string"
  atleast_1d :: "'v \<Rightarrow> 'v"
  set_by_array :: "string \<Rightarrow> 'v \<Rightarrow> 's \<Rightarrow> 's"

text \<open>
  The code-generation device (a process-wide global in the source).
  \<^item> \<open>has_been_run\<close> is \<open>device.has_been_run\<close>.
  \<^item> \<open>static_arrays\<close> is the storage addressed by static-array identifiers (the files
    under \<open>project_dir/static_arrays\<close>).
  \<^item> \<open>main_queue\<close> is \<open>device.main_queue\<close>, the deferred writes executed at the start
    of the generated program: the entry \<open>('set_by_array', (array_name,
    static_array_name, False))\<close> that \<open>initialize_parameter\<close> appends, and the
    assignments to state variables made on this device.
  \<^item> \<open>generated\<close> is the generated program, once there is one: the network it was
    generated for, the state of that network and the queue at that moment, and the
    duration of the run.
  \<^item> \<open>codegen_count\<close> and \<open>program_runs\<close> count how often code was generated and how
    often the generated program was run; the source has no such fields, they make the
    two events observable.
\<close>

datatype 'v queued = Set_by_array string string bool | Set_attribute string 'v

record ('s, 'v, 'd) program =
  prog_network :: nat
  prog_initial :: 's
  prog_queue :: "'v queued list"
  prog_duration :: 'd

record ('s, 'v, 'd) device =
  has_been_run :: bool
  static_arrays :: "string \<rightharpoonup> 'v"
  main_queue :: "'v queued list"
  generated :: "('s, 'v, 'd) program option"
  codegen_count :: nat
  program_runs :: nat

text \<open>
  A \<open>Simulator\<close> instance: \<open>self.networks\<close>, \<open>self.var_init\<close> (Python's \<open>None\<close> is
  \<open>None\<close>) and, for the standalone simulator, the attribute \<open>self.params_init\<close>, which
  does not exist (\<open>None\<close> here) until it is first assigned. Networks are objects shared
  with the caller, so \<open>self.networks\<close> holds references into a heap of network objects.
  The world also holds the device and the state of the random generator.
\<close>

record 'v simulator =
  networks :: "string \<rightharpoonup> nat"
  var_init :: "'v dict option"
  params_init :: "(string \<rightharpoonup> string) option"

record ('s, 'v, 'd, 'g) world =
  self :: "'v simulator"
  heap :: "nat \<Rightarrow> 's network"
  device :: "('s, 'v, 'd) device"
  rng :: 'g

definition Simulator_init :: "'v simulator" where
  "Simulator_init = \<lparr>networks = Map.empty, var_init = None, params_init = None\<rparr>"

definition put_network ::
  "nat \<Rightarrow> 's network \<Rightarrow> ('s, 'v, 'd, 'g) world \<Rightarrow> ('s, 'v, 'd, 'g) world" where
  "put_network r net w = w\<lparr>heap := (heap w)(r := net)\<rparr>"

definition put_live :: "nat \<Rightarrow> 's \<Rightarrow> ('s, 'v, 'd, 'g) world \<Rightarrow> ('s, 'v, 'd, 'g) world" where
  "put_live r s w = put_network r ((heap w r)\<lparr>live := s\<rparr>) w"

section \<open>The interpreted strategy: RuntimeSimulator\<close>

text \<open>
  \<open>for k, v in self.var_init.items(): network['neurons'].__setattr__(k, v)\<close>; the loop
  stops at the first exception.
\<close>

fun setattr_items :: "('s, 'v, 'd, 'g) brian2 \<Rightarrow> 'v dict \<Rightarrow> 's \<Rightarrow> exn option \<times> 's" where
  "setattr_items b [] s = (None, s)"
| "setattr_items b ((k, v) # kvs) s =
     (case group_setattr b k v s of
        (Some e, s') \<Rightarrow> (Some e, s')
      | (None, s') \<Rightarrow> setattr_items b kvs s')"

text \<open>\<open>if self.var_init is not None: for k, v in ...\<close>\<close>

definition apply_var_init ::
  "('s, 'v, 'd, 'g) brian2 \<Rightarrow> 'v dict option \<Rightarrow> 's \<Rightarrow> exn option \<times> 's" where
  "apply_var_init b vi s = (case vi of None \<Rightarrow> (None, s) | Some kvs \<Rightarrow> setattr_items b kvs s)"

text \<open>
  \<open>RuntimeSimulator.initialize\<close>. The assertion \<open>isinstance(network, Network)\<close> is the
  type of the argument: a reference to a network object.
\<close>

definition RuntimeSimulator_initialize ::
  "nat \<Rightarrow> 'v dict option \<Rightarrow> string \<Rightarrow> ('s, 'v, 'd, 'g) world
     \<Rightarrow> exn option \<times> ('s, 'v, 'd, 'g) world" where
  "RuntimeSimulator_initialize network vi name w =
     (if \<not> (network_contains (heap w network) ''monitor'' \<and>
             network_contains (heap w network) ''neurons'')
      then (Some KeyError, w)
      else
        let w1 = w\<lparr>self := (self w)\<lparr>networks := (networks (self w))(name \<mapsto> network)\<rparr>\<rparr>;
            w2 = w1\<lparr>self := (self w1)\<lparr>var_init := vi\<rparr>\<rparr>
        in (None, put_network network (store (heap w2 network)) w2))"

text \<open>
  \<open>RuntimeSimulator.run\<close>, statement by statement: the lookup \<open>self.networks[name]\<close>,
  \<open>network.restore()\<close>, \<open>network['neurons'].set_states(params, units=False)\<close>, the
  \<open>var_init\<close> loop and \<open>network.run(duration, namespace={})\<close>, which simulates the
  network with the random generator as it is at that moment. An exception leaves the
  world as the statements before it made it.
\<close>

definition RuntimeSimulator_run ::
  "('s, 'v, 'd, 'g) brian2 \<Rightarrow> 'd \<Rightarrow> 'v dict \<Rightarrow> string list \<Rightarrow> string
     \<Rightarrow> ('s, 'v, 'd, 'g) world \<Rightarrow> exn option \<times> ('s, 'v, 'd, 'g) world" where
  "RuntimeSimulator_run b duration params params_names name w =
     (case networks (self w) name of
        None \<Rightarrow> (Some KeyError, w)
      | Some r \<Rightarrow>
         (case restore (heap w r) of
            Inl e \<Rightarrow> (Some e, w)
          | Inr net1 \<Rightarrow>
             let w1 = put_network r net1 w in
             if \<not> network_contains net1 ''neurons'' then (Some KeyError, w1)
             else
               (case group_set_states b params (live net1) of
                  (Some e, s2) \<Rightarrow> (Some e, put_live r s2 w1)
                | (None, s2) \<Rightarrow>
                   (case apply_var_init b (var_init (self w1)) s2 of
                      (Some e, s3) \<Rightarrow> (Some e, put_live r s3 w1)
                    | (None, s3) \<Rightarrow>
                       (case network_advance b duration s3 (rng w1) of
                          (e, s4, g) \<Rightarrow> (e, (put_live r s4 w1)\<lparr>rng := g\<rparr>))))))"

text \<open>
  The run of the interpreted strategy in the words of its contract: starting from the
  store-point, push the parameters, apply the variable initialisation, then advance.
  The random generator \<open>g\<close> is the one the call finds.
\<close>

definition from_store_point ::
  "('s, 'v, 'd, 'g) brian2 \<Rightarrow> 'd \<Rightarrow> 'v dict \<Rightarrow> 'v dict option \<Rightarrow> 's \<Rightarrow> 'g
     \<Rightarrow> exn option \<times> 's \<times> 'g" where
  "from_store_point b duration params vi snap g =
     (case group_set_states b params snap of
        (Some e, s2) \<Rightarrow> (Some e, s2, g)
      | (None, s2) \<Rightarrow>
         (case apply_var_init b vi s2 of
            (Some e, s3) \<Rightarrow> (Some e, s3, g)
          | (None, s3) \<Rightarrow> network_advance b duration s3 g))"

text \<open>
  A network is deterministic for a backend and a duration when its simulation neither
  depends on the random generator nor, therefore, differs between two generators.
\<close>

definition deterministic :: "('s, 'v, 'd, 'g) brian2 \<Rightarrow> 'd \<Rightarrow> bool" where
  "deterministic b duration =
     (\<forall>s g g'. fst (network_advance b duration s g) = fst (network_advance b duration s g') \<and>
                fst (snd (network_advance b duration s g)) =
                  fst (snd (network_advance b duration s g')))"

section \<open>The compiled strategy: CPPStandaloneSimulator\<close>

text \<open>
  Modelled from the spec: \<open>device.static_array\<close>, the storage-identifier allocator of the
  code-generation backend, is not part of this repository. It resolves an identifier
  for the array name and puts the value into the storage under it.
\<close>

definition device_static_array ::
  "('s, 'v, 'd, 'g) brian2 \<Rightarrow> string \<Rightarrow> 'v \<Rightarrow> ('s, 'v, 'd) device
     \<Rightarrow> string \<times> ('s, 'v, 'd) device" where
  "device_static_array b array_name val d =
     (let ident = static_array_id b array_name (static_arrays d)
      in (ident, d\<lparr>static_arrays := (static_arrays d)(ident \<mapsto> atleast_1d b val)\<rparr>))"

text \<open>
  \<open>initialize_parameter(variableview, value)\<close>; the variable of the view is identified
  by its name.
\<close>

definition initialize_parameter ::
  "('s, 'v, 'd, 'g) brian2 \<Rightarrow> string \<Rightarrow> 'v \<Rightarrow> ('s, 'v, 'd) device
     \<Rightarrow> string \<times> ('s, 'v, 'd) device" where
  "initialize_parameter b variable val d =
     (let array_name = get_array_name b variable
      in case device_static_array b array_name val d of
           (static_array_name, d1) \<Rightarrow>
             (static_array_name,
              d1\<lparr>main_queue :=
                   main_queue d1 @ [Set_by_array array_name static_array_name False]\<rparr>))"

text \<open>
  \<open>initialize_neurons(params_names, neurons, params)\<close>: the loop over \<open>params_names\<close>
  with the dictionary \<open>params_init\<close> built so far. \<open>neurons.__getattr__(name)\<close> raises
  \<open>AttributeError\<close> for a name that is no variable, \<open>params[name]\<close> raises \<open>KeyError\<close> for
  a missing key; what was written to the device before stays written.
\<close>

fun initialize_neurons_loop ::
  "('s, 'v, 'd, 'g) brian2 \<Rightarrow> string list \<Rightarrow> 's \<Rightarrow> 'v dict \<Rightarrow> (string \<rightharpoonup> string)
     \<Rightarrow> ('s, 'v, 'd) device \<Rightarrow> (exn + (string \<rightharpoonup> string)) \<times> ('s, 'v, 'd) device" where
  "initialize_neurons_loop b [] neurons params acc d = (Inr acc, d)"
| "initialize_neurons_loop b (name # names) neurons params acc d =
     (if \<not> group_has_variable b name neurons then (Inl AttributeError, d)
      else
        (case map_of params name of
           None \<Rightarrow> (Inl KeyError, d)
         | Some val \<Rightarrow>
            (case initialize_parameter b name val d of
               (ident, d1) \<Rightarrow>
                 initialize_neurons_loop b names neurons params (acc(name \<mapsto> ident)) d1)))"

definition initialize_neurons ::
  "('s, 'v, 'd, 'g) brian2 \<Rightarrow> string list \<Rightarrow> 's \<Rightarrow> 'v dict \<Rightarrow> ('s, 'v, 'd) device
     \<Rightarrow> (exn + (string \<rightharpoonup> string)) \<times> ('s, 'v, 'd) device" where
  "initialize_neurons b params_names neurons params d =
     initialize_neurons_loop b params_names neurons params Map.empty d"

text \<open>
  Modelled from the spec: an assignment to a state variable of a network on the
  code-generation backend (\<open>network['neurons'].__setattr__(k, v)\<close> in the first-run
  branch) is not part of this repository. The value is injected into the backend: the
  assignment is checked as on the interpreted backend and, when it is accepted, becomes
  a deferred write of the queue, executed at the start of the generated program.
\<close>

definition standalone_setattr ::
  "('s, 'v, 'd, 'g) brian2 \<Rightarrow> string \<Rightarrow> 'v \<Rightarrow> 's \<Rightarrow> ('s, 'v, 'd) device
     \<Rightarrow> exn option \<times> ('s, 'v, 'd) device" where
  "standalone_setattr b k v neurons d =
     (case group_setattr b k v neurons of
        (Some e, s') \<Rightarrow> (Some e, d)
      | (None, s') \<Rightarrow> (None, d\<lparr>main_queue := main_queue d @ [Set_attribute k v]\<rparr>))"

text \<open>The \<open>var_init\<close> loop of the first-run branch.\<close>

fun standalone_setattr_items ::
  "('s, 'v, 'd, 'g) brian2 \<Rightarrow> 'v dict \<Rightarrow> 's \<Rightarrow> ('s, 'v, 'd) device
     \<Rightarrow> exn option \<times> ('s, 'v, 'd) device" where
  "standalone_setattr_items b [] neurons d = (None, d)"
| "standalone_setattr_items b ((k, v) # kvs) neurons d =
     (case standalone_setattr b k v neurons d of
        (Some e, d1) \<Rightarrow> (Some e, d1)
      | (None, d1) \<Rightarrow> standalone_setattr_items b kvs neurons d1)"

definition standalone_apply_var_init ::
  "('s, 'v, 'd, 'g) brian2 \<Rightarrow> 'v dict option \<Rightarrow> 's \<Rightarrow> ('s, 'v, 'd) device
     \<Rightarrow> exn option \<times> ('s, 'v, 'd) device" where
  "standalone_apply_var_init b vi neurons d =
     (case vi of None \<Rightarrow> (None, d) | Some kvs \<Rightarrow> standalone_setattr_items b kvs neurons d)"

text \<open>The deferred writes that a \<open>var_init\<close> becomes, in the order of its items.\<close>

definition var_init_entries :: "'v dict option \<Rightarrow> 'v queued list" where
  "var_init_entries vi =
     (case vi of None \<Rightarrow> [] | Some kvs \<Rightarrow> map (\<lambda>(k, v). Set_attribute k v) kvs)"

text \<open>
  Modelled from the spec: the generated program is not part of this repository. At its
  start it executes the deferred writes of the queue it was generated with, in their
  order: a \<open>set_by_array\<close> entry reads the storage as it is when the program runs, an
  assignment writes its value. Then it simulates the network for the duration.
\<close>

fun run_queue ::
  "('s, 'v, 'd, 'g) brian2 \<Rightarrow> 'v queued list \<Rightarrow> (string \<rightharpoonup> 'v) \<Rightarrow> 's \<Rightarrow> exn option \<times> 's" where
  "run_queue b [] storage s = (None, s)"
| "run_queue b (Set_by_array array_name static_array_name flag # q) storage s =
     (case storage static_array_name of
        None \<Rightarrow> (Some BackendError, s)
      | Some val \<Rightarrow> run_queue b q storage (set_by_array b array_name val s))"
| "run_queue b (Set_attribute k v # q) storage s =
     (case group_setattr b k v s of
        (Some e, s') \<Rightarrow> (Some e, s')
      | (None, s') \<Rightarrow> run_queue b q storage s')"

definition execute_program ::
  "('s, 'v, 'd, 'g) brian2 \<Rightarrow> ('s, 'v, 'd) program \<Rightarrow> (string \<rightharpoonup> 'v) \<Rightarrow> 'g
     \<Rightarrow> exn option \<times> 's \<times> 'g" where
  "execute_program b prog storage g =
     (case run_queue b (prog_queue prog) storage (prog_initial prog) of
        (Some e, s) \<Rightarrow> (Some e, s, g)
      | (None, s) \<Rightarrow> network_advance b (prog_duration prog) s g)"

text \<open>
  Modelled from the spec: \<open>device.run\<close>, the re-invocation of the already generated
  program, is not part of this repository. \<open>run_again()\<close> calls it: the program runs on
  the storage as it is now, and its results are what is seen through the network it
  was generated for. It generates no code.
\<close>

definition run_again ::
  "('s, 'v, 'd, 'g) brian2 \<Rightarrow> ('s, 'v, 'd, 'g) world \<Rightarrow> exn option \<times> ('s, 'v, 'd, 'g) world" where
  "run_again b w =
     (case generated (device w) of
        None \<Rightarrow> (Some BackendError, w)
      | Some prog \<Rightarrow>
         (case execute_program b prog (static_arrays (device w)) (rng w) of
            (Some e, s, g) \<Rightarrow> (Some e, w)
          | (None, s, g) \<Rightarrow>
              (None, (put_live (prog_network prog) s w)
                       \<lparr>rng := g,
                        device := (device w)\<lparr>program_runs := Suc (program_runs (device w))\<rparr>\<rparr>)))"

text \<open>\<open>set_parameter_value(identifier, value)\<close> overwrites the storage under \<open>identifier\<close>.\<close>

definition set_parameter_value ::
  "('s, 'v, 'd, 'g) brian2 \<Rightarrow> string \<Rightarrow> 'v \<Rightarrow> ('s, 'v, 'd) device \<Rightarrow> ('s, 'v, 'd) device" where
  "set_parameter_value b identifier val d =
     d\<lparr>static_arrays := (static_arrays d)(identifier \<mapsto> atleast_1d b val)\<rparr>"

text \<open>
  \<open>set_states(init_dict, values)\<close>: the loop over \<open>values.items()\<close>; \<open>init_dict[obj_name]\<close>
  raises \<open>KeyError\<close> for a name that has no identifier.
\<close>

fun set_states ::
  "('s, 'v, 'd, 'g) brian2 \<Rightarrow> (string \<rightharpoonup> string) \<Rightarrow> 'v dict \<Rightarrow> ('s, 'v, 'd) device
     \<Rightarrow> exn option \<times> ('s, 'v, 'd) device" where
  "set_states b init_dict [] d = (None, d)"
| "set_states b init_dict ((obj_name, obj_values) # vals) d =
     (case init_dict obj_name of
        None \<Rightarrow> (Some KeyError, d)
      | Some ident \<Rightarrow> set_states b init_dict vals (set_parameter_value b ident obj_values d))"

text \<open>
  Modelled from the spec: \<open>network.run\<close> on the code-generation backend is not part of
  this repository. The first advance performs the backend's code generation (the
  program is generated for this network, from its state and the queue as they are)
  and runs the program; when that succeeds the backend is compiled-and-runnable
  (\<open>has_been_run\<close>) and the results are what is seen through the network.
\<close>

definition standalone_network_run ::
  "('s, 'v, 'd, 'g) brian2 \<Rightarrow> 'd \<Rightarrow> nat \<Rightarrow> ('s, 'v, 'd, 'g) world
     \<Rightarrow> exn option \<times> ('s, 'v, 'd, 'g) world" where
  "standalone_network_run b duration r w =
     (let prog = \<lparr>prog_network = r, prog_initial = live (heap w r),
                  prog_queue = main_queue (device w), prog_duration = duration\<rparr>
      in case execute_program b prog (static_arrays (device w)) (rng w) of
           (Some e, s, g) \<Rightarrow> (Some e, w)
         | (None, s, g) \<Rightarrow>
             (None, (put_live r s w)
                      \<lparr>rng := g,
                       device := (device w)\<lparr>has_been_run := True,
                                             generated := Some prog,
                                             codegen_count := Suc (codegen_count (device w)),
                                             program_runs := Suc (program_runs (device w))\<rparr>\<rparr>))"

text \<open>\<open>CPPStandaloneSimulator.initialize\<close>: as the interpreted one, without \<open>store()\<close>.\<close>

definition CPPStandaloneSimulator_initialize ::
  "nat \<Rightarrow> 'v dict option \<Rightarrow> string \<Rightarrow> ('s, 'v, 'd, 'g) world
     \<Rightarrow> exn option \<times> ('s, 'v, 'd, 'g) world" where
  "CPPStandaloneSimulator_initialize network vi name w =
     (if \<not> (network_contains (heap w network) ''monitor'' \<and>
             network_contains (heap w network) ''neurons'')
      then (Some KeyError, w)
      else
        let w1 = w\<lparr>self := (self w)\<lparr>networks := (networks (self w))(name \<mapsto> network)\<rparr>\<rparr>
        in (None, w1\<lparr>self := (self w1)\<lparr>var_init := vi\<rparr>\<rparr>))"

text \<open>
  \<open>CPPStandaloneSimulator.run\<close>. In the first branch \<open>network['neurons']\<close> is evaluated
  as an argument before \<open>initialize_neurons\<close> is entered, and \<open>self.params_init\<close> is
  assigned only when \<open>initialize_neurons\<close> returns. In the second branch the argument
  \<open>self.params_init\<close> is read before \<open>set_states\<close> is entered, and \<open>network\<close> is not
  used: \<open>run_again()\<close> runs the program whatever network it was generated for.
\<close>

definition CPPStandaloneSimulator_run ::
  "('s, 'v, 'd, 'g) brian2 \<Rightarrow> 'd \<Rightarrow> 'v dict \<Rightarrow> string list \<Rightarrow> string
     \<Rightarrow> ('s, 'v, 'd, 'g) world \<Rightarrow> exn option \<times> ('s, 'v, 'd, 'g) world" where
  "CPPStandaloneSimulator_run b duration params params_names name w =
     (case networks (self w) name of
        None \<Rightarrow> (Some KeyError, w)
      | Some r \<Rightarrow>
         if \<not> has_been_run (device w) then
           if \<not> network_contains (heap w r) ''neurons'' then (Some KeyError, w)
           else
             (case initialize_neurons b params_names (live (heap w r)) params (device w) of
                (Inl e, d1) \<Rightarrow> (Some e, w\<lparr>device := d1\<rparr>)
              | (Inr pinit, d1) \<Rightarrow>
                 let w1 = w\<lparr>device := d1, self := (self w)\<lparr>params_init := Some pinit\<rparr>\<rparr> in
                 (case standalone_apply_var_init b (var_init (self w1)) (live (heap w1 r))
                         (device w1) of
                    (Some e, d2) \<Rightarrow> (Some e, w1\<lparr>device := d2\<rparr>)
                  | (None, d2) \<Rightarrow> standalone_network_run b duration r (w1\<lparr>device := d2\<rparr>)))
         else
           (case params_init (self w) of
              None \<Rightarrow> (Some AttributeError, w)
            | Some pinit \<Rightarrow>
               (case set_states b pinit params (device w) of
                  (Some e, d1) \<Rightarrow> (Some e, w\<lparr>device := d1\<rparr>)
                | (None, d1) \<Rightarrow> run_again b (w\<lparr>device := d1\<rparr>))))"

text \<open>
  A caller's sequence of calls on one standalone simulator; an exception ends the call
  that raised it and the caller goes on with the next one.
\<close>

datatype ('v, 'd) call =
  Initialize nat "'v dict option" string
| Run 'd "'v dict" "string list" string

fun cpp_call ::
  "('s, 'v, 'd, 'g) brian2 \<Rightarrow> ('v, 'd) call \<Rightarrow> ('s, 'v, 'd, 'g) world
     \<Rightarrow> exn option \<times> ('s, 'v, 'd, 'g) world" where
  "cpp_call b (Initialize network vi name) w = CPPStandaloneSimulator_initialize network vi name w"
| "cpp_call b (Run duration params params_names name) w =
     CPPStandaloneSimulator_run b duration params params_names name w"

fun cpp_calls ::
  "('s, 'v, 'd, 'g) brian2 \<Rightarrow> ('v, 'd) call list \<Rightarrow> ('s, 'v, 'd, 'g) world
     \<Rightarrow> ('s, 'v, 'd, 'g) world" where
  "cpp_calls b [] w = w"
| "cpp_calls b (c # cs) w = cpp_calls b cs (snd (cpp_call b c w))"

section \<open>The metric engine\<close>

text \<open>
  Modelled from the spec: \<open>firing_rate\<close> is imported by \<open>tests/test_metric.py\<close> from the
  metric module, which is not among the sources. The firing rate of an event sequence is
  (event-count - 1) divided by the time span between its first and last event; with
  fewer than 2 events it is undefined and a sentinel (\<open>None\<close>) is returned. Event times
  are real numbers.
\<close>

definition firing_rate :: "real list \<Rightarrow> real option" where
  "firing_rate spikes =
     (if length spikes < 2 then None
      else Some (real (length spikes - 1) / (last spikes - hd spikes)))"

text \<open>
  Modelled from the spec: the mean squared difference of two time series. It is
  undefined (\<open>None\<close>) for series of different lengths and over no samples at all.
\<close>

definition mean_squared_difference :: "real list \<Rightarrow> real list \<Rightarrow> real option" where
  "mean_squared_difference xs ys =
     (if length xs \<noteq> length ys \<or> xs = [] then None
      else Some (sum_list (map2 (\<lambda>x y. (x - y)\<^sup>2) xs ys) / real (length xs)))"

text \<open>
  Modelled from the spec: \<open>compute_features\<close> of the continuous-signal metric
  (\<open>MSEMetric.get_features\<close> in the tests) is not among the sources. \<open>simulated\<close> has
  \<open>n_channels * n_candidates\<close> rows, the candidates of a channel next to each other;
  \<open>target\<close> has \<open>n_channels\<close> rows. Every (channel, candidate) pair gets the mean squared
  difference of its two series, restricted to the samples from the index of \<open>t_start\<close>
  on. The result has shape \<open>(n_channels, n_candidates)\<close>; the call fails as a whole
  (\<open>None\<close>) when the shapes do not fit or one pair is undefined.
\<close>

definition compute_features ::
  "real list list \<Rightarrow> real list list \<Rightarrow> nat \<Rightarrow> real \<Rightarrow> real \<Rightarrow> real list list option" where
  "compute_features simulated target n_channels dt t_start =
     (if n_channels = 0 \<or> dt \<le> 0 \<or> length target \<noteq> n_channels
         \<or> length simulated mod n_channels \<noteq> 0
      then None
      else
        let n_candidates = length simulated div n_channels;
            start = nat \<lfloor>t_start / dt\<rfloor>
        in those (map (\<lambda>channel.
             those (map (\<lambda>candidate.
               mean_squared_difference
                 (drop start (simulated ! (channel * n_candidates + candidate)))
                 (drop start (target ! channel)))
               [0..<n_candidates]))
             [0..<n_channels]))"

text \<open>
  Modelled from the spec: the constructor of the event-train metric engine
  (\<open>GammaFactor\<close> in the tests) is not among the sources. Its two arguments are
  optional quantities; each one given must carry the dimension of time, and both must
  be given. The tests fix which error is raised: \<open>DimensionMismatchError\<close> for a bare
  number, \<open>TypeError\<close> when nothing is given.
\<close>

datatype dimension = Dimensionless | Time | OtherDimension

datatype quantity = Quantity real dimension

datatype gamma_factor = GammaFactorEngine quantity quantity

fun has_time_dimension :: "quantity \<Rightarrow> bool" where
  "has_time_dimension (Quantity x d) = (d = Time)"

fun wrong_dimension :: "quantity option \<Rightarrow> bool" where
  "wrong_dimension None = False"
| "wrong_dimension (Some q) = (\<not> has_time_dimension q)"

definition GammaFactor :: "quantity option \<Rightarrow> quantity option \<Rightarrow> exn + gamma_factor" where
  "GammaFactor delta time =
     (if wrong_dimension delta \<or> wrong_dimension time then Inl DimensionMismatchError
      else
        (case (delta, time) of
           (Some d, Some t) \<Rightarrow> Inr (GammaFactorEngine d t)
         | _ \<Rightarrow> Inl TypeError))"

section \<open>A concrete backend and concrete worlds\<close>

text \<open>
  A small instance of the library operations, on which the theorems below are
  instantiated: the network state is the list of variable assignments (the latest
  first) and the trace recorded so far; advancing by \<open>n\<close> steps records the value of
  \<open>v\<close> \<open>n\<close> times and leaves the random generator (an integer) alone.
\<close>

type_synonym sample_state = "(string \<times> int) list \<times> int list"

fun sample_set_states :: "int dict \<Rightarrow> sample_state \<Rightarrow> exn option \<times> sample_state" where
  "sample_set_states ps (vars, tr) = (None, (rev ps @ vars, tr))"

fun sample_setattr :: "string \<Rightarrow> int \<Rightarrow> sample_state \<Rightarrow> exn option \<times> sample_state" where
  "sample_setattr k v (vars, tr) = (None, ((k, v) # vars, tr))"

fun sample_has_variable :: "string \<Rightarrow> sample_state \<Rightarrow> bool" where
  "sample_has_variable k (vars, tr) = (map_of vars k \<noteq> None)"

fun sample_value :: "sample_state \<Rightarrow> int" where
  "sample_value (vars, tr) = (case map_of vars ''v'' of None \<Rightarrow> 0 | Some x \<Rightarrow> x)"

fun sample_advance :: "nat \<Rightarrow> sample_state \<Rightarrow> int \<Rightarrow> exn option \<times> sample_state \<times> int" where
  "sample_advance n (vars, tr) g = (None, (vars, tr @ replicate n (sample_value (vars, tr))), g)"

text \<open>The array of a variable is named after it; a queued write stores into the variable.\<close>

fun sample_set_by_array :: "string \<Rightarrow> int \<Rightarrow> sample_state \<Rightarrow> sample_state" where
  "sample_set_by_array array_name v (vars, tr) = ((drop 15 array_name, v) # vars, tr)"

definition sample_brian2 :: "(sample_state, int, nat, int) brian2" where
  "sample_brian2 =
     \<lparr>group_set_states = sample_set_states,
      group_setattr = sample_setattr,
      group_has_variable = sample_has_variable,
      network_advance = sample_advance,
      get_array_name = (\<lambda>variable. ''_array_neurons_'' @ variable),
      static_array_id = (\<lambda>array_name storage. ''_static_array_'' @ array_name),
      atleast_1d = (\<lambda>v. v),
      set_by_array = sample_set_by_array\<rparr>"

text \<open>
  The same backend with a stochastic network: every recorded value is the value of \<open>v\<close>
  plus the number drawn from the generator, and the generator moves on.
\<close>

fun sample_noisy_advance ::
  "nat \<Rightarrow> sample_state \<Rightarrow> int \<Rightarrow> exn option \<times> sample_state \<times> int" where
  "sample_noisy_advance n (vars, tr) g =
     (None, (vars, tr @ replicate n (sample_value (vars, tr) + g)), g + 1)"

definition sample_noisy_brian2 :: "(sample_state, int, nat, int) brian2" where
  "sample_noisy_brian2 = sample_brian2\<lparr>network_advance := sample_noisy_advance\<rparr>"

text \<open>
  Network 1 lacks the monitor, every other network has both roles; the simulator is
  fresh, the device has not run and the generator is at 0.
\<close>

definition sample_network :: "sample_state network" where
  "sample_network =
     \<lparr>objects = [''neurons'', ''monitor''], live = ([(''v'', 0), (''g'', 1)], []), stored = None\<rparr>"

definition sample_device :: "(sample_state, int, nat) device" where
  "sample_device =
     \<lparr>has_been_run = False, static_arrays = Map.empty, main_queue = [], generated = None,
      codegen_count = 0, program_runs = 0\<rparr>"

definition sample_world :: "(sample_state, int, nat, int) world" where
  "sample_world =
     \<lparr>self = Simulator_init,
      heap = (\<lambda>r. if r = 1 then sample_network\<lparr>objects := [''neurons'']\<rparr> else sample_network),
      device = sample_device,
      rng = 0\<rparr>"

text \<open>The world after network 0 was registered with the interpreted simulator.\<close>

definition sample_registered :: "(sample_state, int, nat, int) world" where
  "sample_registered =
     snd (RuntimeSimulator_initialize 0 (Some [(''v'', 2)]) ''fit'' sample_world)"

text \<open>
  The same with the standalone simulator and an initial value for \<open>g\<close>, and the world
  after its first run, with \<open>v\<close> as the parameter.
\<close>

definition sample_cpp_registered :: "(sample_state, int, nat, int) world" where
  "sample_cpp_registered =
     snd (CPPStandaloneSimulator_initialize 0 (Some [(''g'', 2)]) ''fit'' sample_world)"

definition sample_cpp_first :: "(sample_state, int, nat, int) world" where
  "sample_cpp_first =
     snd (CPPStandaloneSimulator_run sample_brian2 3 [(''v'', 5)] [''v''] ''fit''
            sample_cpp_registered)"

text \<open>
  The first simulator after a second network was registered with another initial value
  for \<open>g\<close>, which overwrites \<open>self.var_init\<close>.
\<close>

definition sample_cpp_reinit :: "(sample_state, int, nat, int) world" where
  "sample_cpp_reinit =
     snd (CPPStandaloneSimulator_initialize 2 (Some [(''g'', 9)]) ''other'' sample_cpp_first)"

text \<open>
  A second simulator instance created after the first one has run: the device and the
  networks are shared, the instance is fresh and registers network 0 itself.
\<close>

definition sample_cpp_second :: "(sample_state, int, nat, int) world" where
  "sample_cpp_second =
     snd (CPPStandaloneSimulator_initialize 0 None ''fit''
            (sample_cpp_first\<lparr>self := Simulator_init\<rparr>))"

section \<open>Properties of the interpreted strategy\<close>

lemma put_live_simps:
  "self (put_live r s w) = self w"
  "device (put_live r s w) = device w"
  "rng (put_live r s w) = rng w"
  "heap (put_live r s w) = (heap w)(r := (heap w r)\<lparr>live := s\<rparr>)"
  "self (put_network r n w) = self w"
  "device (put_network r n w) = device w"
  "rng (put_network r n w) = rng w"
  "heap (put_network r n w) = (heap w)(r := n)"
  "put_live r s (put_network r n w) = put_network r (n\<lparr>live := s\<rparr>) w"
  "put_network r n (put_network r n' w) = put_network r n w"
  by (simp_all add: put_live_def put_network_def)

lemma RuntimeSimulator_run_registered:
  assumes "networks (self w) name = Some r" and "stored (heap w r) = Some snap"
    and "network_contains (heap w r) ''neurons''"
  shows "RuntimeSimulator_run b d p pn name w =
           (fst (from_store_point b d p (var_init (self w)) snap (rng w)),
            (put_live r (fst (snd (from_store_point b d p (var_init (self w)) snap (rng w)))) w)
              \<lparr>rng := snd (snd (from_store_point b d p (var_init (self w)) snap (rng w)))\<rparr>)"
proof -
  have w1: "put_network r ((heap w r)\<lparr>live := snap\<rparr>) w = put_live r snap w"
    by (simp add: put_live_def)
  obtain e2 s2 where ss: "group_set_states b p snap = (e2, s2)"
    by (cases "group_set_states b p snap")
  show ?thesis
  proof (cases e2)
    case (Some e)
    with assms ss show ?thesis
      by (simp add: RuntimeSimulator_run_def restore_def from_store_point_def
          network_contains_def put_live_def put_network_def)
  next
    case None
    note e2 = this
    obtain e3 s3 where vi: "apply_var_init b (var_init (self w)) s2 = (e3, s3)"
      by (cases "apply_var_init b (var_init (self w)) s2")
    show ?thesis
    proof (cases e3)
      case (Some e)
      with assms ss e2 vi show ?thesis
        by (simp add: RuntimeSimulator_run_def restore_def from_store_point_def
            network_contains_def put_live_def put_network_def)
    next
      case None
      obtain e4 s4 g4 where adv: "network_advance b d s3 (rng w) = (e4, s4, g4)"
        by (cases "network_advance b d s3 (rng w)") auto
      from assms ss e2 vi None adv show ?thesis
        by (simp add: RuntimeSimulator_run_def restore_def from_store_point_def
            network_contains_def put_live_def put_network_def)
    qed
  qed
qed

lemma RuntimeSimulator_run_frame:
  "self (snd (RuntimeSimulator_run b d p pn name w)) = self w"
  "device (snd (RuntimeSimulator_run b d p pn name w)) = device w"
  "stored (heap (snd (RuntimeSimulator_run b d p pn name w)) r') = stored (heap w r')"
  "objects (heap (snd (RuntimeSimulator_run b d p pn name w)) r') = objects (heap w r')"
  by (auto simp: RuntimeSimulator_run_def restore_def put_live_simps
      network_contains_def Let_def split: option.splits prod.splits sum.splits)

lemma from_store_point_deterministic:
  assumes "deterministic b d"
  shows "fst (from_store_point b d p vi snap g) = fst (from_store_point b d p vi snap g')"
    and "fst (snd (from_store_point b d p vi snap g)) =
         fst (snd (from_store_point b d p vi snap g'))"
proof -
  have adv: "fst (network_advance b d s g) = fst (network_advance b d s g')"
    "fst (snd (network_advance b d s g)) = fst (snd (network_advance b d s g'))" for s
    using assms by (simp_all add: deterministic_def)
  show "fst (from_store_point b d p vi snap g) = fst (from_store_point b d p vi snap g')"
    by (simp add: from_store_point_def adv split: prod.splits option.splits)
  show "fst (snd (from_store_point b d p vi snap g)) =
         fst (snd (from_store_point b d p vi snap g'))"
    by (simp add: from_store_point_def adv split: prod.splits option.splits)
qed

lemma RuntimeSimulator_initialize_ok:
  assumes "RuntimeSimulator_initialize n vi name w = (None, w')"
  shows "networks (self w') = (networks (self w))(name \<mapsto> n)"
    and "var_init (self w') = vi"
    and "params_init (self w') = params_init (self w)"
    and "heap w' = (heap w)(n := store (heap w n))"
    and "device w' = device w"
    and "network_contains (heap w n) ''monitor''"
    and "network_contains (heap w n) ''neurons''"
    and "rng w' = rng w"
  using assms
  by (auto simp: RuntimeSimulator_initialize_def Let_def put_network_def split: if_splits)

text \<open>
  C1. For a network registered with the interpreted simulator (its name is in
  \<open>self.networks\<close>, it has the snapshot \<open>snap\<close> taken by \<open>initialize\<close> and a group
  \<open>neurons\<close>), each \<open>run\<close> restores the snapshot, sets the parameters, applies \<open>var_init\<close>
  and advances: its outcome and the state it leaves, hence the recorded traces, are
  those computed from the store-point, the arguments and the random generator as the
  call finds it, whatever the state of the network before the call. \<open>restore()\<close> does not
  reset the generator. So two successive \<open>run\<close> calls with the same arguments give the
  same outcome and the same traces when the network is deterministic, and the same
  world when the first call left the generator as it was.
\<close>

theorem interpreted_runs_reproducible:
  assumes reg: "networks (self w) name = Some r"
    and snap: "stored (heap w r) = Some snap"
    and neurons: "network_contains (heap w r) ''neurons''"
  shows "fst (RuntimeSimulator_run b d p pn name w) =
           fst (from_store_point b d p (var_init (self w)) snap (rng w))
       \<and> live (heap (snd (RuntimeSimulator_run b d p pn name w)) r) =
           fst (snd (from_store_point b d p (var_init (self w)) snap (rng w)))
       \<and> rng (snd (RuntimeSimulator_run b d p pn name w)) =
           snd (snd (from_store_point b d p (var_init (self w)) snap (rng w)))
       \<and> (deterministic b d \<longrightarrow>
            fst (RuntimeSimulator_run b d p pn name (snd (RuntimeSimulator_run b d p pn name w))) =
              fst (RuntimeSimulator_run b d p pn name w) \<and>
            live (heap (snd (RuntimeSimulator_run b d p pn name
                              (snd (RuntimeSimulator_run b d p pn name w)))) r) =
              live (heap (snd (RuntimeSimulator_run b d p pn name w)) r))
       \<and> (rng (snd (RuntimeSimulator_run b d p pn name w)) = rng w \<longrightarrow>
            RuntimeSimulator_run b d p pn name (snd (RuntimeSimulator_run b d p pn name w)) =
              RuntimeSimulator_run b d p pn name w)"
proof -
  let ?run = "RuntimeSimulator_run b d p pn name"
  let ?w1 = "snd (?run w)"
  let ?F = "\<lambda>g. from_store_point b d p (var_init (self w)) snap g"
  have A: "?run w = (fst (?F (rng w)),
             (put_live r (fst (snd (?F (rng w)))) w)\<lparr>rng := snd (snd (?F (rng w)))\<rparr>)"
    by (rule RuntimeSimulator_run_registered[OF reg snap neurons])
  have reg1: "networks (self ?w1) name = Some r"
    using reg by (simp add: RuntimeSimulator_run_frame)
  have snap1: "stored (heap ?w1 r) = Some snap"
    using snap by (simp add: RuntimeSimulator_run_frame)
  have neurons1: "network_contains (heap ?w1 r) ''neurons''"
    using neurons by (simp add: network_contains_def RuntimeSimulator_run_frame)
  have B: "?run ?w1 = (fst (?F (rng ?w1)),
             (put_live r (fst (snd (?F (rng ?w1)))) ?w1)\<lparr>rng := snd (snd (?F (rng ?w1)))\<rparr>)"
    using RuntimeSimulator_run_registered[OF reg1 snap1 neurons1, of b d p pn]
    by (simp add: RuntimeSimulator_run_frame)
  have C: "put_live r s ?w1 = (put_live r s w)\<lparr>rng := rng ?w1\<rparr>" for s
    by (simp add: A put_live_def put_network_def)
  have 1: "fst (?run w) = fst (?F (rng w))" by (simp add: A)
  have 2: "live (heap ?w1 r) = fst (snd (?F (rng w)))" by (simp add: A put_live_simps)
  have 3: "rng ?w1 = snd (snd (?F (rng w)))" by (simp add: A)
  have 4: "fst (?run ?w1) = fst (?run w) \<and> live (heap (snd (?run ?w1)) r) = live (heap ?w1 r)"
    if det: "deterministic b d"
  proof -
    have "fst (?run ?w1) = fst (?F (rng ?w1))" by (simp add: B)
    moreover have "live (heap (snd (?run ?w1)) r) = fst (snd (?F (rng ?w1)))"
      by (simp add: B put_live_simps)
    ultimately show ?thesis
      using from_store_point_deterministic[OF det, of p "var_init (self w)" snap "rng ?w1" "rng w"]
        1 2 by simp
  qed
  have 5: "?run ?w1 = ?run w" if same: "rng ?w1 = rng w"
  proof -
    have "put_live r s ?w1 = put_live r s w" for s
      using C[of s] same by (simp add: put_live_def put_network_def)
    then show ?thesis unfolding B same by (simp add: A[symmetric])
  qed
  show ?thesis using 1 2 3 4 5 by blast
qed

lemma sample_registered_facts:
  "networks (self sample_registered) ''fit'' = Some 0"
  "stored (heap sample_registered 0) = Some ([(''v'', 0), (''g'', 1)], [])"
  "network_contains (heap sample_registered 0) ''neurons''"
  "var_init (self sample_registered) = Some [(''v'', 2)]"
  "rng sample_registered = 0"
  by (simp_all add: sample_registered_def RuntimeSimulator_initialize_def sample_world_def
      sample_network_def network_contains_def put_network_def store_def Let_def)

lemma sample_deterministic: "deterministic sample_brian2 d"
  by (simp add: deterministic_def sample_brian2_def split_paired_all)

lemma sample_from_store_point:
  "from_store_point sample_brian2 3 [(''g'', 5)] (Some [(''v'', 2)])
     ([(''v'', 0), (''g'', 1)], []) g =
   (None, ([(''v'', 2), (''g'', 5), (''v'', 0), (''g'', 1)], [2, 2, 2]), g)"
  by (simp add: from_store_point_def sample_brian2_def apply_var_init_def numeral_3_eq_3)

theorem interpreted_runs_reproducible_witness:
  "live (heap (snd (RuntimeSimulator_run sample_brian2 3 [(''g'', 5)] [''g''] ''fit''
                        sample_registered)) 0) =
       ([(''v'', 2), (''g'', 5), (''v'', 0), (''g'', 1)], [2, 2, 2])
   \<and> live (heap (snd (RuntimeSimulator_run sample_brian2 3 [(''g'', 5)] [''g''] ''fit''
          (snd (RuntimeSimulator_run sample_brian2 3 [(''g'', 5)] [''g''] ''fit''
                  sample_registered)))) 0) =
       ([(''v'', 2), (''g'', 5), (''v'', 0), (''g'', 1)], [2, 2, 2])
   \<and> RuntimeSimulator_run sample_brian2 3 [(''g'', 5)] [''g''] ''fit''
       (snd (RuntimeSimulator_run sample_brian2 3 [(''g'', 5)] [''g''] ''fit'' sample_registered)) =
     RuntimeSimulator_run sample_brian2 3 [(''g'', 5)] [''g''] ''fit'' sample_registered"
  using interpreted_runs_reproducible[OF sample_registered_facts(1,2,3),
      of sample_brian2 3 "[(''g'', 5)]" "[''g'']"]
  by (simp add: sample_registered_facts sample_from_store_point sample_deterministic)

lemma sample_noisy_from_store_point:
  "from_store_point sample_noisy_brian2 3 [(''g'', 5)] (Some [(''v'', 2)])
     ([(''v'', 0), (''g'', 1)], []) g =
   (None, ([(''v'', 2), (''g'', 5), (''v'', 0), (''g'', 1)], [2 + g, 2 + g, 2 + g]), g + 1)"
  by (simp add: from_store_point_def sample_noisy_brian2_def sample_brian2_def
      apply_var_init_def numeral_3_eq_3)

lemma sample_noisy_first:
  "RuntimeSimulator_run sample_noisy_brian2 3 [(''g'', 5)] [''g''] ''fit'' sample_registered =
     (None, (put_live 0 ([(''v'', 2), (''g'', 5), (''v'', 0), (''g'', 1)], [2, 2, 2])
               sample_registered)\<lparr>rng := 1\<rparr>)"
  using RuntimeSimulator_run_registered[OF sample_registered_facts(1,2,3),
      of sample_noisy_brian2 3 "[(''g'', 5)]" "[''g'']"]
  by (simp add: sample_registered_facts sample_noisy_from_store_point)

lemma sample_noisy_second:
  "live (heap (snd (RuntimeSimulator_run sample_noisy_brian2 3 [(''g'', 5)] [''g''] ''fit''
      ((put_live 0 ([(''v'', 2), (''g'', 5), (''v'', 0), (''g'', 1)], [2, 2, 2])
               sample_registered)\<lparr>rng := 1\<rparr>))) 0) =
     ([(''v'', 2), (''g'', 5), (''v'', 0), (''g'', 1)], [3, 3, 3])"
proof -
  let ?w1 = "(put_live 0 ([(''v'', 2), (''g'', 5), (''v'', 0), (''g'', 1)], [2, 2, 2])
               sample_registered)\<lparr>rng := 1\<rparr>"
  have reg: "networks (self ?w1) ''fit'' = Some 0"
    by (simp add: put_live_simps sample_registered_facts)
  have snap: "stored (heap ?w1 0) = Some ([(''v'', 0), (''g'', 1)], [])"
    by (simp add: put_live_simps sample_registered_facts)
  have neurons: "network_contains (heap ?w1 0) ''neurons''"
    using sample_registered_facts(3) by (simp add: put_live_simps network_contains_def)
  show ?thesis
    using RuntimeSimulator_run_registered[OF reg snap neurons,
        of sample_noisy_brian2 3 "[(''g'', 5)]" "[''g'']"]
    by (simp add: put_live_simps sample_registered_facts sample_noisy_from_store_point)
qed

text \<open>
  C1 as it is stated, for every network, does not hold:
  with a stochastic network the two successive runs of the claim record different
  traces: the first run moves the generator on and \<open>restore()\<close> does not bring it back.
\<close>

theorem interpreted_runs_reproducible_counterexample:
  "snd (live (heap (snd (RuntimeSimulator_run sample_noisy_brian2 3 [(''g'', 5)] [''g''] ''fit''
                        sample_registered)) 0)) = [2, 2, 2]
   \<and> snd (live (heap (snd (RuntimeSimulator_run sample_noisy_brian2 3 [(''g'', 5)] [''g''] ''fit''
          (snd (RuntimeSimulator_run sample_noisy_brian2 3 [(''g'', 5)] [''g''] ''fit''
                  sample_registered)))) 0)) = [3, 3, 3]
   \<and> live (heap (snd (RuntimeSimulator_run sample_noisy_brian2 3 [(''g'', 5)] [''g''] ''fit''
          (snd (RuntimeSimulator_run sample_noisy_brian2 3 [(''g'', 5)] [''g''] ''fit''
                  sample_registered)))) 0) \<noteq>
     live (heap (snd (RuntimeSimulator_run sample_noisy_brian2 3 [(''g'', 5)] [''g''] ''fit''
                        sample_registered)) 0)"
  by (simp add: sample_noisy_first sample_noisy_second put_live_simps)

text \<open>
  C4. For both strategies, \<open>initialize\<close> raises the \<open>KeyError\<close> for a network that lacks
  \<open>monitor\<close> or \<open>neurons\<close>; the exception is the outcome of \<open>initialize\<close> itself and the
  world is left as it was (nothing is registered, nothing is run). With both roles
  present \<open>initialize\<close> succeeds and the network is registered under \<open>name\<close>.
\<close>

theorem initialize_checks_roles:
  "(\<not> (network_contains (heap w n) ''monitor'' \<and> network_contains (heap w n) ''neurons'') \<longrightarrow>
      RuntimeSimulator_initialize n vi name w = (Some KeyError, w) \<and>
      CPPStandaloneSimulator_initialize n vi name w = (Some KeyError, w))
   \<and> (network_contains (heap w n) ''monitor'' \<and> network_contains (heap w n) ''neurons'' \<longrightarrow>
      fst (RuntimeSimulator_initialize n vi name w) = None \<and>
      networks (self (snd (RuntimeSimulator_initialize n vi name w))) name = Some n \<and>
      fst (CPPStandaloneSimulator_initialize n vi name w) = None \<and>
      networks (self (snd (CPPStandaloneSimulator_initialize n vi name w))) name = Some n)"
  by (simp add: RuntimeSimulator_initialize_def CPPStandaloneSimulator_initialize_def Let_def
      put_network_def)

theorem initialize_checks_roles_witness:
  "RuntimeSimulator_initialize 1 None ''fit'' sample_world = (Some KeyError, sample_world)
   \<and> CPPStandaloneSimulator_initialize 1 None ''fit'' sample_world = (Some KeyError, sample_world)
   \<and> fst (RuntimeSimulator_initialize 0 None ''fit'' sample_world) = None
   \<and> networks (self (snd (RuntimeSimulator_initialize 0 None ''fit'' sample_world))) ''fit'' = Some 0
   \<and> fst (CPPStandaloneSimulator_initialize 0 None ''fit'' sample_world) = None
   \<and> networks (self (snd (CPPStandaloneSimulator_initialize 0 None ''fit'' sample_world))) ''fit'' = Some 0"
proof -
  have missing: "\<not> (network_contains (heap sample_world 1) ''monitor'' \<and>
                    network_contains (heap sample_world 1) ''neurons'')"
    by (simp add: sample_world_def sample_network_def network_contains_def)
  have present: "network_contains (heap sample_world 0) ''monitor'' \<and>
                 network_contains (heap sample_world 0) ''neurons''"
    by (simp add: sample_world_def sample_network_def network_contains_def)
  show ?thesis
    using initialize_checks_roles[of sample_world 1 None "''fit''"]
      initialize_checks_roles[of sample_world 0 None "''fit''"] missing present
    by blast
qed

text \<open>
  C9. A simulator keeps one \<open>var_init\<close> for all its networks: a successful \<open>initialize\<close>
  overwrites it, so after a second network is registered under another name, a run on
  the first name applies the second call's \<open>var_init\<close> (\<open>vi2\<close>), not the one given when
  the first name was registered.
\<close>

theorem var_init_shared_across_names:
  assumes i1: "RuntimeSimulator_initialize n1 vi1 name1 w = (None, w1)"
    and i2: "RuntimeSimulator_initialize n2 vi2 name2 w1 = (None, w2)"
    and diff: "name1 \<noteq> name2"
  shows "var_init (self w1) = vi1
       \<and> var_init (self w2) = vi2
       \<and> networks (self w2) name1 = Some n1
       \<and> RuntimeSimulator_run b d p pn name1 w2 =
           (fst (from_store_point b d p vi2 (live (heap w n1)) (rng w2)),
            (put_live n1 (fst (snd (from_store_point b d p vi2 (live (heap w n1)) (rng w2)))) w2)
              \<lparr>rng := snd (snd (from_store_point b d p vi2 (live (heap w n1)) (rng w2)))\<rparr>)"
proof -
  note a = RuntimeSimulator_initialize_ok[OF i1]
  note c = RuntimeSimulator_initialize_ok[OF i2]
  have reg: "networks (self w2) name1 = Some n1"
    using diff by (simp add: a(1) c(1))
  have snap: "stored (heap w2 n1) = Some (live (heap w n1))"
    by (simp add: a(4) c(4) store_def)
  have neurons: "network_contains (heap w2 n1) ''neurons''"
    using a(7) by (auto simp: a(4) c(4) store_def network_contains_def)
  show ?thesis
    using RuntimeSimulator_run_registered[OF reg snap neurons, of b d p pn]
    by (simp add: a(2) c(2) reg)
qed

theorem var_init_shared_across_names_witness:
  "var_init (self sample_registered) = Some [(''v'', 2)]
   \<and> var_init (self (snd (RuntimeSimulator_initialize 2 (Some [(''v'', 7)]) ''other''
                             sample_registered))) = Some [(''v'', 7)]
   \<and> live (heap (snd (RuntimeSimulator_run sample_brian2 3 [(''g'', 5)] [''g''] ''fit''
        (snd (RuntimeSimulator_initialize 2 (Some [(''v'', 7)]) ''other'' sample_registered)))) 0) =
       ([(''v'', 7), (''g'', 5), (''v'', 0), (''g'', 1)], [7, 7, 7])"
proof -
  let ?w2 = "snd (RuntimeSimulator_initialize 2 (Some [(''v'', 7)]) ''other'' sample_registered)"
  have i1: "RuntimeSimulator_initialize 0 (Some [(''v'', 2)]) ''fit'' sample_world =
              (None, sample_registered)"
    by (simp add: sample_registered_def RuntimeSimulator_initialize_def sample_world_def
        sample_network_def network_contains_def Let_def)
  have i2: "RuntimeSimulator_initialize 2 (Some [(''v'', 7)]) ''other'' sample_registered =
              (None, ?w2)"
    by (simp add: sample_registered_def RuntimeSimulator_initialize_def sample_world_def
        sample_network_def network_contains_def put_network_def store_def Let_def)
  have diff: "''fit'' \<noteq> ''other''" by simp
  have l: "live (heap sample_world 0) = ([(''v'', 0), (''g'', 1)], [])"
    by (simp add: sample_world_def sample_network_def)
  have F: "from_store_point sample_brian2 3 [(''g'', 5)] (Some [(''v'', 7)])
             ([(''v'', 0), (''g'', 1)], []) g =
           (None, ([(''v'', 7), (''g'', 5), (''v'', 0), (''g'', 1)], [7, 7, 7]), g)" for g
    by (simp add: from_store_point_def sample_brian2_def apply_var_init_def numeral_3_eq_3)
  show ?thesis
    using var_init_shared_across_names[OF i1 i2 diff, of sample_brian2 3 "[(''g'', 5)]" "[''g'']"]
    by (simp add: l F put_live_simps)
qed

section \<open>Properties of the compiled strategy\<close>

subsection \<open>Writing the parameter storage\<close>

lemma set_parameter_value_frame:
  "has_been_run (set_parameter_value b i v d) = has_been_run d"
  "main_queue (set_parameter_value b i v d) = main_queue d"
  "generated (set_parameter_value b i v d) = generated d"
  "codegen_count (set_parameter_value b i v d) = codegen_count d"
  "program_runs (set_parameter_value b i v d) = program_runs d"
  by (simp_all add: set_parameter_value_def)

lemma set_states_unchanged:
  "has_been_run (snd (set_states b i ps d)) = has_been_run d \<and>
   main_queue (snd (set_states b i ps d)) = main_queue d \<and>
   generated (snd (set_states b i ps d)) = generated d \<and>
   codegen_count (snd (set_states b i ps d)) = codegen_count d \<and>
   program_runs (snd (set_states b i ps d)) = program_runs d"
proof (induction ps arbitrary: d)
  case Nil
  show ?case by simp
next
  case (Cons kv ps)
  obtain k v where kv: "kv = (k, v)" by (cases kv)
  show ?case
  proof (cases "i k")
    case None
    then show ?thesis by (simp add: kv)
  next
    case (Some ident)
    note IH = Cons.IH[of "set_parameter_value b ident v d"]
    show ?thesis using Some by (simp add: kv IH set_parameter_value_frame)
  qed
qed

lemma set_states_result:
  assumes "set_states b i ps d = (r, d')"
  shows "has_been_run d' = has_been_run d"
    and "main_queue d' = main_queue d"
    and "generated d' = generated d"
    and "codegen_count d' = codegen_count d"
    and "program_runs d' = program_runs d"
proof -
  have d': "d' = snd (set_states b i ps d)" using assms by simp
  show "has_been_run d' = has_been_run d" unfolding d' using set_states_unchanged by blast
  show "main_queue d' = main_queue d" unfolding d' using set_states_unchanged by blast
  show "generated d' = generated d" unfolding d' using set_states_unchanged by blast
  show "codegen_count d' = codegen_count d" unfolding d' using set_states_unchanged by blast
  show "program_runs d' = program_runs d" unfolding d' using set_states_unchanged by blast
qed

lemma set_states_not_written:
  "\<forall>(k, v) \<in> set ps. i k \<noteq> Some ident \<Longrightarrow>
   static_arrays (snd (set_states b i ps d)) ident = static_arrays d ident"
proof (induction ps arbitrary: d)
  case Nil
  show ?case by simp
next
  case (Cons kv ps)
  obtain k v where kv: "kv = (k, v)" by (cases kv)
  show ?case
  proof (cases "i k")
    case None
    then show ?thesis by (simp add: kv)
  next
    case (Some ident')
    have ne: "ident' \<noteq> ident" using Cons.prems Some by (auto simp: kv)
    have rest: "\<forall>(k, v) \<in> set ps. i k \<noteq> Some ident" using Cons.prems by simp
    show ?thesis
      using Some ne Cons.IH[OF rest, of "set_parameter_value b ident' v d"]
      by (simp add: kv set_parameter_value_def)
  qed
qed

lemma set_states_outside:
  assumes "ident \<notin> ran i"
  shows "static_arrays (snd (set_states b i ps d)) ident = static_arrays d ident"
proof (rule set_states_not_written)
  show "\<forall>(k, v) \<in> set ps. i k \<noteq> Some ident"
    using assms by (auto simp: ran_def)
qed

lemma set_states_writes:
  assumes "fst (set_states b i ps d) = None"
    and "distinct (map fst ps)" and "inj_on i (fst ` set ps)" and "(k, v) \<in> set ps"
  shows "\<exists>ident. i k = Some ident \<and>
           static_arrays (snd (set_states b i ps d)) ident = Some (atleast_1d b v)"
  using assms
proof (induction ps arbitrary: d)
  case Nil
  then show ?case by simp
next
  case (Cons kv ps)
  obtain k0 v0 where kv: "kv = (k0, v0)" by (cases kv)
  from Cons.prems(1) obtain id0 where id0: "i k0 = Some id0"
    by (cases "i k0") (simp_all add: kv)
  let ?d1 = "set_parameter_value b id0 v0 d"
  have step: "set_states b i (kv # ps) d = set_states b i ps ?d1"
    by (simp add: kv id0)
  have ok: "fst (set_states b i ps ?d1) = None" using Cons.prems(1) step by simp
  have dist: "distinct (map fst ps)" and fresh: "k0 \<notin> fst ` set ps"
    using Cons.prems(2) by (simp_all add: kv)
  have inj: "inj_on i (fst ` set ps)"
    using Cons.prems(3) by (simp add: kv inj_on_def)
  show ?case
  proof (cases "(k, v) \<in> set ps")
    case True
    from Cons.IH[OF ok dist inj True] show ?thesis by (simp add: step)
  next
    case False
    with Cons.prems(4) have eq: "k = k0" "v = v0" by (simp_all add: kv)
    have other: "\<forall>(k', v') \<in> set ps. i k' \<noteq> Some id0"
    proof (clarify)
      fix k' v' assume mem: "(k', v') \<in> set ps" and same: "i k' = Some id0"
      from mem have k': "k' \<in> fst ` set ps" by force
      have in1: "k' \<in> fst ` set (kv # ps)" and in2: "k0 \<in> fst ` set (kv # ps)"
        using k' by (simp_all add: kv)
      have ieq: "i k' = i k0" using same id0 by simp
      have "k' = k0" by (rule inj_onD[OF Cons.prems(3) ieq in1 in2])
      with k' fresh show False by simp
    qed
    have "static_arrays (snd (set_states b i ps ?d1)) id0 = static_arrays ?d1 id0"
      by (rule set_states_not_written[OF other])
    then show ?thesis by (simp add: step eq id0 set_parameter_value_def)
  qed
qed

subsection \<open>Initialising the parameters\<close>

lemma initialize_parameter_effect:
  assumes "initialize_parameter b n val d = (ident, d1)"
  shows "static_arrays d1 = (static_arrays d)(ident \<mapsto> atleast_1d b val)"
    and "main_queue d1 = main_queue d @ [Set_by_array (get_array_name b n) ident False]"
    and "has_been_run d1 = has_been_run d"
    and "generated d1 = generated d"
    and "codegen_count d1 = codegen_count d"
    and "program_runs d1 = program_runs d"
  using assms
  by (auto simp: initialize_parameter_def device_static_array_def Let_def)

lemma initialize_neurons_loop_Cons:
  assumes "initialize_neurons_loop b (name # names) s ps acc d = (Inr pinit, d')"
  shows "\<exists>val ident d1. group_has_variable b name s \<and> map_of ps name = Some val \<and>
           initialize_parameter b name val d = (ident, d1) \<and>
           initialize_neurons_loop b names s ps (acc(name \<mapsto> ident)) d1 = (Inr pinit, d')"
proof (cases "group_has_variable b name s")
  case False
  with assms show ?thesis by simp
next
  case True
  show ?thesis
  proof (cases "map_of ps name")
    case None
    with assms True show ?thesis by simp
  next
    case (Some val)
    obtain ident d1 where ip: "initialize_parameter b name val d = (ident, d1)"
      by (cases "initialize_parameter b name val d")
    with assms True Some show ?thesis by simp
  qed
qed

lemma initialize_neurons_loop_unchanged:
  "has_been_run (snd (initialize_neurons_loop b ns s ps acc d)) = has_been_run d \<and>
   generated (snd (initialize_neurons_loop b ns s ps acc d)) = generated d \<and>
   codegen_count (snd (initialize_neurons_loop b ns s ps acc d)) = codegen_count d \<and>
   program_runs (snd (initialize_neurons_loop b ns s ps acc d)) = program_runs d \<and>
   (\<exists>q. main_queue (snd (initialize_neurons_loop b ns s ps acc d)) = main_queue d @ q)"
proof (induction ns arbitrary: acc d)
  case Nil
  show ?case by simp
next
  case (Cons name names)
  show ?case
  proof (cases "group_has_variable b name s")
    case False
    then show ?thesis by simp
  next
    case True
    show ?thesis
    proof (cases "map_of ps name")
      case None
      with True show ?thesis by simp
    next
      case (Some val)
      obtain ident d1 where ip: "initialize_parameter b name val d = (ident, d1)"
        by (cases "initialize_parameter b name val d")
      note e = initialize_parameter_effect[OF ip]
      let ?X = "snd (initialize_neurons_loop b names s ps (acc(name \<mapsto> ident)) d1)"
      note IH = Cons.IH[of "acc(name \<mapsto> ident)" d1]
      have step: "initialize_neurons_loop b (name # names) s ps acc d =
                    initialize_neurons_loop b names s ps (acc(name \<mapsto> ident)) d1"
        using True Some ip by simp
      from IH have h1: "has_been_run ?X = has_been_run d1" by (rule conjunct1)
      from IH have h2: "generated ?X = generated d1" by blast
      from IH have h3: "codegen_count ?X = codegen_count d1" by blast
      from IH have h4: "program_runs ?X = program_runs d1" by blast
      from IH obtain q where q: "main_queue ?X = main_queue d1 @ q" by blast
      have a1: "has_been_run ?X = has_been_run d" using h1 e(3) by (rule trans)
      have a2: "generated ?X = generated d" using h2 e(4) by (rule trans)
      have a3: "codegen_count ?X = codegen_count d" using h3 e(5) by (rule trans)
      have a4: "program_runs ?X = program_runs d" using h4 e(6) by (rule trans)
      have "main_queue ?X =
              main_queue d @ (Set_by_array (get_array_name b name) ident False # q)"
        unfolding q e(2) by simp
      then have a5: "\<exists>q. main_queue ?X = main_queue d @ q" by (rule exI)
      show ?thesis unfolding step using a1 a2 a3 a4 a5 by blast
    qed
  qed
qed

lemma initialize_neurons_result:
  assumes "initialize_neurons b ns s ps d = (r, d')"
  shows "has_been_run d' = has_been_run d"
    and "generated d' = generated d"
    and "codegen_count d' = codegen_count d"
    and "program_runs d' = program_runs d"
    and "\<exists>q. main_queue d' = main_queue d @ q"
proof -
  have d': "d' = snd (initialize_neurons_loop b ns s ps Map.empty d)"
    using assms by (simp add: initialize_neurons_def)
  note u = initialize_neurons_loop_unchanged[of b ns s ps Map.empty d]
  show "has_been_run d' = has_been_run d" unfolding d' using u by blast
  show "generated d' = generated d" unfolding d' using u by blast
  show "codegen_count d' = codegen_count d" unfolding d' using u by blast
  show "program_runs d' = program_runs d" unfolding d' using u by blast
  show "\<exists>q. main_queue d' = main_queue d @ q" unfolding d' using u by blast
qed

lemma initialize_neurons_loop_other:
  "initialize_neurons_loop b ns s ps acc d = (Inr pinit, d') \<Longrightarrow> n \<notin> set ns \<Longrightarrow>
   pinit n = acc n"
proof (induction ns arbitrary: acc d)
  case Nil
  then show ?case by simp
next
  case (Cons name names)
  from initialize_neurons_loop_Cons[OF Cons.prems(1)] obtain val ident d1 where
    rest: "initialize_neurons_loop b names s ps (acc(name \<mapsto> ident)) d1 = (Inr pinit, d')"
    by blast
  from Cons.prems(2) have "n \<notin> set names" "n \<noteq> name" by simp_all
  with Cons.IH[OF rest] show ?case by simp
qed

lemma initialize_neurons_loop_dom:
  "initialize_neurons_loop b ns s ps acc d = (Inr pinit, d') \<Longrightarrow> dom pinit = dom acc \<union> set ns"
proof (induction ns arbitrary: acc d)
  case Nil
  then show ?case by simp
next
  case (Cons name names)
  from initialize_neurons_loop_Cons[OF Cons.prems(1)] obtain val ident d1 where
    rest: "initialize_neurons_loop b names s ps (acc(name \<mapsto> ident)) d1 = (Inr pinit, d')"
    by blast
  from Cons.IH[OF rest] show ?case by auto
qed

lemma initialize_neurons_loop_queued:
  "initialize_neurons_loop b ns s ps acc d = (Inr pinit, d') \<Longrightarrow> n \<in> set ns \<Longrightarrow>
   \<exists>ident val. pinit n = Some ident \<and> map_of ps n = Some val \<and>
     Set_by_array (get_array_name b n) ident False \<in> set (main_queue d')"
proof (induction ns arbitrary: acc d)
  case Nil
  then show ?case by simp
next
  case (Cons name names)
  from initialize_neurons_loop_Cons[OF Cons.prems(1)] obtain val ident d1 where
    val: "map_of ps name = Some val"
    and ip: "initialize_parameter b name val d = (ident, d1)"
    and rest: "initialize_neurons_loop b names s ps (acc(name \<mapsto> ident)) d1 = (Inr pinit, d')"
    by blast
  show ?case
  proof (cases "n \<in> set names")
    case True
    from Cons.IH[OF rest True] show ?thesis .
  next
    case False
    with Cons.prems(2) have n: "n = name" by simp
    have p: "pinit name = Some ident"
      using initialize_neurons_loop_other[OF rest, of name] False n by simp
    have d': "d' = snd (initialize_neurons_loop b names s ps (acc(name \<mapsto> ident)) d1)"
      using rest by simp
    from initialize_neurons_loop_unchanged[of b names s ps "acc(name \<mapsto> ident)" d1]
    obtain q where "main_queue d' = main_queue d1 @ q" unfolding d' by blast
    then have "Set_by_array (get_array_name b name) ident False \<in> set (main_queue d')"
      by (simp add: initialize_parameter_effect(2)[OF ip])
    with p val show ?thesis by (simp add: n)
  qed
qed

lemma initialize_neurons_loop_not_written:
  "initialize_neurons_loop b ns s ps acc d = (Inr pinit, d') \<Longrightarrow> distinct ns \<Longrightarrow>
   \<forall>n \<in> set ns. pinit n \<noteq> Some x \<Longrightarrow> static_arrays d' x = static_arrays d x"
proof (induction ns arbitrary: acc d)
  case Nil
  then show ?case by simp
next
  case (Cons name names)
  from initialize_neurons_loop_Cons[OF Cons.prems(1)] obtain val ident d1 where
    ip: "initialize_parameter b name val d = (ident, d1)"
    and rest: "initialize_neurons_loop b names s ps (acc(name \<mapsto> ident)) d1 = (Inr pinit, d')"
    by blast
  from Cons.prems(2) have dist: "distinct names" and fresh: "name \<notin> set names" by simp_all
  have p: "pinit name = Some ident"
    using initialize_neurons_loop_other[OF rest fresh] by simp
  with Cons.prems(3) have ne: "ident \<noteq> x" by auto
  have others: "\<forall>n \<in> set names. pinit n \<noteq> Some x" using Cons.prems(3) by simp
  have "static_arrays d' x = static_arrays d1 x" by (rule Cons.IH[OF rest dist others])
  then show ?case using ne by (simp add: initialize_parameter_effect(1)[OF ip])
qed

lemma initialize_neurons_loop_stored:
  "initialize_neurons_loop b ns s ps acc d = (Inr pinit, d') \<Longrightarrow> distinct ns \<Longrightarrow>
   inj_on pinit (set ns) \<Longrightarrow> n \<in> set ns \<Longrightarrow>
   \<exists>ident val. pinit n = Some ident \<and> map_of ps n = Some val \<and>
     static_arrays d' ident = Some (atleast_1d b val)"
proof (induction ns arbitrary: acc d)
  case Nil
  then show ?case by simp
next
  case (Cons name names)
  from initialize_neurons_loop_Cons[OF Cons.prems(1)] obtain val ident d1 where
    val: "map_of ps name = Some val"
    and ip: "initialize_parameter b name val d = (ident, d1)"
    and rest: "initialize_neurons_loop b names s ps (acc(name \<mapsto> ident)) d1 = (Inr pinit, d')"
    by blast
  from Cons.prems(2) have dist: "distinct names" and fresh: "name \<notin> set names" by simp_all
  have inj: "inj_on pinit (set names)" using Cons.prems(3) by (simp add: inj_on_def)
  have p: "pinit name = Some ident"
    using initialize_neurons_loop_other[OF rest fresh] by simp
  show ?case
  proof (cases "n \<in> set names")
    case True
    from Cons.IH[OF rest dist inj True] show ?thesis .
  next
    case False
    with Cons.prems(4) have n: "n = name" by simp
    have others: "\<forall>m \<in> set names. pinit m \<noteq> Some ident"
    proof
      fix m assume m: "m \<in> set names"
      show "pinit m \<noteq> Some ident"
      proof
        assume "pinit m = Some ident"
        then have eq: "pinit m = pinit name" using p by simp
        have "m = name"
          by (rule inj_onD[OF Cons.prems(3) eq]) (use m in simp_all)
        with m fresh show False by simp
      qed
    qed
    have "static_arrays d' ident = static_arrays d1 ident"
      by (rule initialize_neurons_loop_not_written[OF rest dist others])
    then have "static_arrays d' ident = Some (atleast_1d b val)"
      by (simp add: initialize_parameter_effect(1)[OF ip])
    with p val show ?thesis by (simp add: n)
  qed
qed

subsection \<open>Deferred writes and the generated program\<close>

lemma standalone_setattr_items_effect:
  "standalone_setattr_items b kvs s d = (e, d') \<Longrightarrow>
   has_been_run d' = has_been_run d \<and> generated d' = generated d \<and>
   static_arrays d' = static_arrays d \<and> codegen_count d' = codegen_count d \<and>
   program_runs d' = program_runs d \<and>
   (e = None \<longrightarrow> main_queue d' = main_queue d @ map (\<lambda>(k, v). Set_attribute k v) kvs)"
proof (induction kvs arbitrary: d)
  case Nil
  then show ?case by simp
next
  case (Cons kv kvs)
  obtain k v where kv: "kv = (k, v)" by (cases kv)
  obtain e1 s1 where g: "group_setattr b k v s = (e1, s1)" by (cases "group_setattr b k v s")
  show ?case
  proof (cases e1)
    case (Some x)
    with Cons.prems g show ?thesis by (auto simp: kv standalone_setattr_def)
  next
    case None
    let ?d1 = "d\<lparr>main_queue := main_queue d @ [Set_attribute k v]\<rparr>"
    have rest: "standalone_setattr_items b kvs s ?d1 = (e, d')"
      using Cons.prems g None by (simp add: kv standalone_setattr_def)
    from Cons.IH[OF rest] show ?thesis by (simp add: kv)
  qed
qed

lemma standalone_apply_var_init_effect:
  assumes "standalone_apply_var_init b vi s d = (e, d')"
  shows "has_been_run d' = has_been_run d" and "generated d' = generated d"
    and "static_arrays d' = static_arrays d" and "codegen_count d' = codegen_count d"
    and "program_runs d' = program_runs d"
    and "e = None \<Longrightarrow> main_queue d' = main_queue d @ var_init_entries vi"
proof -
  have all: "has_been_run d' = has_been_run d \<and> generated d' = generated d \<and>
   static_arrays d' = static_arrays d \<and> codegen_count d' = codegen_count d \<and>
   program_runs d' = program_runs d \<and>
   (e = None \<longrightarrow> main_queue d' = main_queue d @ var_init_entries vi)"
  proof (cases vi)
    case None
    with assms show ?thesis by (simp add: standalone_apply_var_init_def var_init_entries_def)
  next
    case (Some kvs)
    with assms have "standalone_setattr_items b kvs s d = (e, d')"
      by (simp add: standalone_apply_var_init_def)
    from standalone_setattr_items_effect[OF this] show ?thesis
      by (simp add: Some var_init_entries_def)
  qed
  show "has_been_run d' = has_been_run d" using all by blast
  show "generated d' = generated d" using all by blast
  show "static_arrays d' = static_arrays d" using all by blast
  show "codegen_count d' = codegen_count d" using all by blast
  show "program_runs d' = program_runs d" using all by blast
  show "e = None \<Longrightarrow> main_queue d' = main_queue d @ var_init_entries vi" using all by blast
qed

lemma run_queue_append:
  "run_queue b (q1 @ q2) storage s =
     (case run_queue b q1 storage s of
        (Some e, s') \<Rightarrow> (Some e, s')
      | (None, s') \<Rightarrow> run_queue b q2 storage s')"
proof (induction q1 arbitrary: s)
  case Nil
  show ?case by simp
next
  case (Cons x q1)
  show ?case
  proof (cases x)
    case (Set_by_array a i f)
    show ?thesis
      by (cases "storage i") (simp_all add: Set_by_array Cons.IH)
  next
    case (Set_attribute k v)
    obtain e1 s1 where g: "group_setattr b k v s = (e1, s1)" by (cases "group_setattr b k v s")
    show ?thesis
      by (cases e1) (simp_all add: Set_attribute g Cons.IH)
  qed
qed

lemma run_queue_setattr_items:
  "run_queue b (map (\<lambda>(k, v). Set_attribute k v) kvs) storage s = setattr_items b kvs s"
proof (induction kvs arbitrary: s)
  case Nil
  show ?case by simp
next
  case (Cons kv kvs)
  obtain k v where kv: "kv = (k, v)" by (cases kv)
  obtain e1 s1 where g: "group_setattr b k v s = (e1, s1)" by (cases "group_setattr b k v s")
  show ?case
    by (cases e1) (simp_all add: kv g Cons.IH)
qed

lemma run_queue_var_init_entries:
  "run_queue b (var_init_entries vi) storage s = apply_var_init b vi s"
  by (cases vi) (simp_all add: var_init_entries_def apply_var_init_def run_queue_setattr_items)

lemma execute_program_var_init:
  assumes "prog_queue prog = q @ var_init_entries vi"
  shows "execute_program b prog storage g =
     (case run_queue b q storage (prog_initial prog) of
        (Some e, s) \<Rightarrow> (Some e, s, g)
      | (None, s) \<Rightarrow>
         (case apply_var_init b vi s of
            (Some e, s') \<Rightarrow> (Some e, s', g)
          | (None, s') \<Rightarrow> network_advance b (prog_duration prog) s' g))"
proof -
  obtain e1 s1 where q: "run_queue b q storage (prog_initial prog) = (e1, s1)"
    by (cases "run_queue b q storage (prog_initial prog)")
  show ?thesis
  proof (cases e1)
    case (Some x)
    then show ?thesis
      by (simp add: execute_program_def assms run_queue_append q)
  next
    case None
    obtain e2 s2 where v: "apply_var_init b vi s1 = (e2, s2)"
      by (cases "apply_var_init b vi s1")
    show ?thesis
      by (cases e2)
        (simp_all add: execute_program_def assms run_queue_append q None
          run_queue_var_init_entries v)
  qed
qed

subsection \<open>The two branches of run\<close>

lemma cpp_first_run:
  assumes nrun: "\<not> has_been_run (device w)" and reg: "networks (self w) name = Some r"
    and run: "CPPStandaloneSimulator_run b d p pn name w = (None, w')"
  shows "\<exists>pinit d1.
           initialize_neurons b pn (live (heap w r)) p (device w) = (Inr pinit, d1) \<and>
           self w' = (self w)\<lparr>params_init := Some pinit\<rparr> \<and>
           static_arrays (device w') = static_arrays d1 \<and>
           main_queue (device w') = main_queue d1 @ var_init_entries (var_init (self w)) \<and>
           generated (device w') =
             Some \<lparr>prog_network = r, prog_initial = live (heap w r),
                   prog_queue = main_queue (device w'), prog_duration = d\<rparr> \<and>
           has_been_run (device w') \<and>
           codegen_count (device w') = Suc (codegen_count (device w)) \<and>
           program_runs (device w') = Suc (program_runs (device w)) \<and>
           execute_program b
             \<lparr>prog_network = r, prog_initial = live (heap w r),
              prog_queue = main_queue (device w'), prog_duration = d\<rparr>
             (static_arrays (device w')) (rng w) = (None, live (heap w' r), rng w')"
proof -
  have neurons: "network_contains (heap w r) ''neurons''"
    using run nrun reg by (cases "network_contains (heap w r) ''neurons''")
      (simp_all add: CPPStandaloneSimulator_run_def)
  obtain res d1 where ini: "initialize_neurons b pn (live (heap w r)) p (device w) = (res, d1)"
    by (cases "initialize_neurons b pn (live (heap w r)) p (device w)")
  obtain pinit where res: "res = Inr pinit"
    using run nrun reg neurons ini
    by (cases res) (simp_all add: CPPStandaloneSimulator_run_def)
  note fr = initialize_neurons_result[OF ini]
  let ?w1 = "w\<lparr>device := d1, self := (self w)\<lparr>params_init := Some pinit\<rparr>\<rparr>"
  obtain e2 d2 where vi: "standalone_apply_var_init b (var_init (self w)) (live (heap w r)) d1 = (e2, d2)"
    by (cases "standalone_apply_var_init b (var_init (self w)) (live (heap w r)) d1")
  have step1: "CPPStandaloneSimulator_run b d p pn name w =
      (case e2 of Some e \<Rightarrow> (Some e, ?w1\<lparr>device := d2\<rparr>)
       | None \<Rightarrow> standalone_network_run b d r (?w1\<lparr>device := d2\<rparr>))"
    using nrun reg neurons ini res vi
    by (cases e2) (simp_all add: CPPStandaloneSimulator_run_def)
  have e2: "e2 = None" using run step1 by (cases e2) simp_all
  note ve = standalone_apply_var_init_effect[OF vi]
  let ?w2 = "?w1\<lparr>device := d2\<rparr>"
  let ?prog = "\<lparr>prog_network = r, prog_initial = live (heap w r),
                prog_queue = main_queue d2, prog_duration = d\<rparr>"
  have net: "standalone_network_run b d r ?w2 = (None, w')" using run step1 e2 by simp
  obtain e3 s3 g3 where ex: "execute_program b ?prog (static_arrays d2) (rng w) = (e3, s3, g3)"
    by (cases "execute_program b ?prog (static_arrays d2) (rng w)") auto
  have e3: "e3 = None"
    using net ex by (cases e3) (simp_all add: standalone_network_run_def)
  have w': "w' = (put_live r s3 ?w2)
                   \<lparr>rng := g3,
                    device := d2\<lparr>has_been_run := True, generated := Some ?prog,
                                  codegen_count := Suc (codegen_count d2),
                                  program_runs := Suc (program_runs d2)\<rparr>\<rparr>"
    using net ex e3 by (simp add: standalone_network_run_def)
  have q: "main_queue d2 = main_queue d1 @ var_init_entries (var_init (self w))"
    using ve(6) e2 by simp
  show ?thesis
    apply (rule exI[of _ pinit])
    apply (rule exI[of _ d1])
    apply (intro conjI)
            apply (simp add: ini res)
           apply (simp add: w' put_live_simps)
          apply (simp add: w' ve)
         apply (simp add: w' q)
        apply (simp add: w')
       apply (simp add: w')
      apply (simp add: w' ve fr)
     apply (simp add: w' ve fr)
    apply (simp add: w' ex e3 put_live_simps)
    done
qed

lemma cpp_rerun:
  assumes run: "has_been_run (device w)"
  shows "self (snd (CPPStandaloneSimulator_run b d p pn name w)) = self w"
    and "has_been_run (device (snd (CPPStandaloneSimulator_run b d p pn name w)))"
    and "codegen_count (device (snd (CPPStandaloneSimulator_run b d p pn name w))) =
           codegen_count (device w)"
    and "main_queue (device (snd (CPPStandaloneSimulator_run b d p pn name w))) =
           main_queue (device w)"
    and "generated (device (snd (CPPStandaloneSimulator_run b d p pn name w))) =
           generated (device w)"
proof -
  let ?w' = "snd (CPPStandaloneSimulator_run b d p pn name w)"
  have all: "self ?w' = self w \<and> has_been_run (device ?w') \<and>
     codegen_count (device ?w') = codegen_count (device w) \<and>
     main_queue (device ?w') = main_queue (device w) \<and>
     generated (device ?w') = generated (device w)"
  proof (cases "networks (self w) name")
    case None
    with run show ?thesis by (simp add: CPPStandaloneSimulator_run_def)
  next
    case (Some r)
    note reg = this
    show ?thesis
    proof (cases "params_init (self w)")
      case None
      with run reg show ?thesis by (simp add: CPPStandaloneSimulator_run_def)
    next
      case (Some pinit)
      obtain e1 d1 where ss: "set_states b pinit p (device w) = (e1, d1)"
        by (cases "set_states b pinit p (device w)")
      note fr = set_states_result[OF ss]
      show ?thesis
      proof (cases e1)
        case (Some e)
        with run reg \<open>params_init (self w) = Some pinit\<close> ss fr show ?thesis
          by (simp add: CPPStandaloneSimulator_run_def)
      next
        case None
        have step: "CPPStandaloneSimulator_run b d p pn name w = run_again b (w\<lparr>device := d1\<rparr>)"
          using run reg \<open>params_init (self w) = Some pinit\<close> ss None
          by (simp add: CPPStandaloneSimulator_run_def)
        show ?thesis
        proof (cases "generated (device w)")
          case None
          then show ?thesis using run fr by (simp add: step run_again_def)
        next
          case (Some prog)
          obtain e3 s3 g3 where
            ex: "execute_program b prog (static_arrays d1) (rng w) = (e3, s3, g3)"
            by (cases "execute_program b prog (static_arrays d1) (rng w)") auto
          show ?thesis
            using run fr Some ex
            by (cases e3) (simp_all add: step run_again_def put_live_simps)
        qed
      qed
    qed
  qed
  show "self ?w' = self w" using all by blast
  show "has_been_run (device ?w')" using all by blast
  show "codegen_count (device ?w') = codegen_count (device w)" using all by blast
  show "main_queue (device ?w') = main_queue (device w)" using all by blast
  show "generated (device ?w') = generated (device w)" using all by blast
qed

lemma cpp_rerun_ok:
  assumes run: "has_been_run (device w)"
    and ok: "CPPStandaloneSimulator_run b d p pn name w = (None, w')"
  shows "\<exists>pinit prog d1.
           params_init (self w) = Some pinit \<and> generated (device w) = Some prog \<and>
           set_states b pinit p (device w) = (None, d1) \<and>
           static_arrays (device w') = static_arrays d1 \<and>
           program_runs (device w') = Suc (program_runs (device w)) \<and>
           execute_program b prog (static_arrays (device w')) (rng w) =
             (None, live (heap w' (prog_network prog)), rng w') \<and>
           (\<forall>r'. r' \<noteq> prog_network prog \<longrightarrow> heap w' r' = heap w r')"
proof -
  obtain r where reg: "networks (self w) name = Some r"
    using ok by (cases "networks (self w) name") (simp_all add: CPPStandaloneSimulator_run_def)
  obtain pinit where pinit: "params_init (self w) = Some pinit"
    using ok run reg
    by (cases "params_init (self w)") (simp_all add: CPPStandaloneSimulator_run_def)
  obtain e1 d1 where ss: "set_states b pinit p (device w) = (e1, d1)"
    by (cases "set_states b pinit p (device w)")
  have e1: "e1 = None"
    using ok run reg pinit ss by (cases e1) (simp_all add: CPPStandaloneSimulator_run_def)
  note fr = set_states_result[OF ss]
  have step: "run_again b (w\<lparr>device := d1\<rparr>) = (None, w')"
    using ok run reg pinit ss e1 by (simp add: CPPStandaloneSimulator_run_def)
  obtain prog where prog: "generated d1 = Some prog"
    using step by (cases "generated d1") (simp_all add: run_again_def)
  obtain e3 s3 g3 where ex: "execute_program b prog (static_arrays d1) (rng w) = (e3, s3, g3)"
    by (cases "execute_program b prog (static_arrays d1) (rng w)") auto
  have e3: "e3 = None" using step prog ex by (cases e3) (simp_all add: run_again_def)
  have w': "w' = (put_live (prog_network prog) s3 (w\<lparr>device := d1\<rparr>))
                   \<lparr>rng := g3, device := d1\<lparr>program_runs := Suc (program_runs d1)\<rparr>\<rparr>"
    using step prog ex e3 by (simp add: run_again_def)
  show ?thesis
    apply (rule exI[of _ pinit])
    apply (rule exI[of _ prog])
    apply (rule exI[of _ d1])
    apply (intro conjI)
          apply (rule pinit)
         apply (simp add: prog[symmetric] fr)
        apply (simp add: ss e1)
       apply (simp add: w')
      apply (simp add: w' fr)
     apply (simp add: w' ex e3 put_live_simps)
    apply (simp add: w' put_live_simps)
    done
qed

lemma cpp_rerun_storage:
  assumes "has_been_run (device w)" and "params_init (self w) = Some pinit"
    and "ident \<notin> ran pinit"
  shows "static_arrays (device (snd (CPPStandaloneSimulator_run b d p pn name w))) ident =
           static_arrays (device w) ident"
proof (cases "networks (self w) name")
  case None
  then show ?thesis by (simp add: CPPStandaloneSimulator_run_def)
next
  case (Some r)
  obtain e1 d1 where ss: "set_states b pinit p (device w) = (e1, d1)"
    by (cases "set_states b pinit p (device w)")
  have d1: "static_arrays d1 ident = static_arrays (device w) ident"
    using set_states_outside[OF assms(3), of b p "device w"] ss by simp
  show ?thesis
  proof (cases e1)
    case (Some e)
    with assms \<open>networks (self w) name = Some r\<close> ss d1 show ?thesis
      by (simp add: CPPStandaloneSimulator_run_def)
  next
    case None
    have step: "CPPStandaloneSimulator_run b d p pn name w = run_again b (w\<lparr>device := d1\<rparr>)"
      using assms \<open>networks (self w) name = Some r\<close> ss None
      by (simp add: CPPStandaloneSimulator_run_def)
    show ?thesis
    proof (cases "generated d1")
      case None
      then show ?thesis using d1 by (simp add: step run_again_def)
    next
      case (Some prog)
      obtain e3 s3 g3 where
        ex: "execute_program b prog (static_arrays d1) (rng w) = (e3, s3, g3)"
        by (cases "execute_program b prog (static_arrays d1) (rng w)") auto
      show ?thesis
        using d1 Some ex by (cases e3) (simp_all add: step run_again_def put_live_simps)
    qed
  qed
qed

subsection \<open>Code generation over sequences of calls\<close>

lemma standalone_network_run_count:
  assumes "\<not> has_been_run (device w)"
  shows "codegen_count (device (snd (standalone_network_run b d r w))) =
           codegen_count (device w) +
             (if has_been_run (device (snd (standalone_network_run b d r w))) then 1 else 0)"
proof -
  let ?prog = "\<lparr>prog_network = r, prog_initial = live (heap w r),
                prog_queue = main_queue (device w), prog_duration = d\<rparr>"
  obtain e3 s3 g3 where
    ex: "execute_program b ?prog (static_arrays (device w)) (rng w) = (e3, s3, g3)"
    by (cases "execute_program b ?prog (static_arrays (device w)) (rng w)") auto
  show ?thesis
    using assms ex by (cases e3) (simp_all add: standalone_network_run_def)
qed

lemma cpp_run_count:
  assumes nrun: "\<not> has_been_run (device w)"
  shows "codegen_count (device (snd (CPPStandaloneSimulator_run b d p pn name w))) =
     codegen_count (device w) +
       (if has_been_run (device (snd (CPPStandaloneSimulator_run b d p pn name w))) then 1 else 0)"
proof (cases "networks (self w) name")
  case None
  with nrun show ?thesis by (simp add: CPPStandaloneSimulator_run_def)
next
  case (Some r)
  note reg = this
  show ?thesis
  proof (cases "network_contains (heap w r) ''neurons''")
    case False
    with nrun reg show ?thesis by (simp add: CPPStandaloneSimulator_run_def)
  next
    case True
    obtain res d1 where ini: "initialize_neurons b pn (live (heap w r)) p (device w) = (res, d1)"
      by (cases "initialize_neurons b pn (live (heap w r)) p (device w)")
    note fr = initialize_neurons_result[OF ini]
    show ?thesis
    proof (cases res)
      case (Inl e)
      with nrun reg True ini fr show ?thesis
        by (simp add: CPPStandaloneSimulator_run_def)
    next
      case (Inr pinit)
      let ?w1 = "w\<lparr>device := d1, self := (self w)\<lparr>params_init := Some pinit\<rparr>\<rparr>"
      obtain e2 d2 where
        vi: "standalone_apply_var_init b (var_init (self w)) (live (heap w r)) d1 = (e2, d2)"
        by (cases "standalone_apply_var_init b (var_init (self w)) (live (heap w r)) d1")
      note ve = standalone_apply_var_init_effect[OF vi]
      show ?thesis
      proof (cases e2)
        case (Some e)
        with nrun reg True ini Inr vi fr ve show ?thesis
          by (simp add: CPPStandaloneSimulator_run_def)
      next
        case None
        have step: "CPPStandaloneSimulator_run b d p pn name w =
                      standalone_network_run b d r (?w1\<lparr>device := d2\<rparr>)"
          using nrun reg True ini Inr vi None by (simp add: CPPStandaloneSimulator_run_def)
        have n2: "\<not> has_been_run (device (?w1\<lparr>device := d2\<rparr>))"
          using nrun fr ve by simp
        show ?thesis
          unfolding step using standalone_network_run_count[OF n2, of b d r] fr ve by simp
      qed
    qed
  qed
qed

lemma cpp_initialize_device:
  "device (snd (CPPStandaloneSimulator_initialize n vi name w)) = device w"
  by (simp add: CPPStandaloneSimulator_initialize_def Let_def)

lemma cpp_call_count:
  "codegen_count (device (snd (cpp_call b c w))) =
     codegen_count (device w) +
       (if has_been_run (device (snd (cpp_call b c w))) \<and> \<not> has_been_run (device w)
        then 1 else 0)"
proof (cases c)
  case (Initialize n vi name)
  then show ?thesis by (simp add: cpp_initialize_device)
next
  case (Run d p pn name)
  show ?thesis
  proof (cases "has_been_run (device w)")
    case True
    with Run show ?thesis by (simp add: cpp_rerun)
  next
    case False
    with Run cpp_run_count[OF False, of b d p pn name] show ?thesis by simp
  qed
qed

lemma cpp_call_irreversible:
  "has_been_run (device w) \<Longrightarrow> has_been_run (device (snd (cpp_call b c w)))"
  by (cases c) (simp_all add: cpp_initialize_device cpp_rerun)

lemma cpp_calls_irreversible:
  "has_been_run (device w) \<Longrightarrow> has_been_run (device (cpp_calls b cs w))"
  by (induction cs arbitrary: w) (simp_all add: cpp_call_irreversible)

lemma cpp_calls_count:
  "codegen_count (device (cpp_calls b cs w)) =
     codegen_count (device w) +
       (if has_been_run (device (cpp_calls b cs w)) \<and> \<not> has_been_run (device w)
        then 1 else 0)"
proof (induction cs arbitrary: w)
  case Nil
  show ?case by simp
next
  case (Cons c cs)
  let ?w1 = "snd (cpp_call b c w)"
  show ?case
  proof (cases "has_been_run (device ?w1)")
    case True
    then have "has_been_run (device (cpp_calls b cs ?w1))" by (rule cpp_calls_irreversible)
    with Cons.IH[of ?w1] cpp_call_count[of b c w] True show ?thesis by simp
  next
    case False
    then have "\<not> has_been_run (device w)" using cpp_call_irreversible[of w b c] by blast
    with Cons.IH[of ?w1] cpp_call_count[of b c w] False show ?thesis by simp
  qed
qed

lemma cpp_call_params_init:
  "has_been_run (device w) \<or> (\<forall>d p pn name. c \<noteq> Run d p pn name) \<Longrightarrow>
   params_init (self (snd (cpp_call b c w))) = params_init (self w)"
  by (cases c) (auto simp: cpp_rerun(1) CPPStandaloneSimulator_initialize_def Let_def)

lemma cpp_rerun_ignores_var_init:
  assumes "has_been_run (device w)"
  shows "fst (CPPStandaloneSimulator_run b d p pn name (w\<lparr>self := (self w)\<lparr>var_init := vi\<rparr>\<rparr>)) =
           fst (CPPStandaloneSimulator_run b d p pn name w)"
    and "device (snd (CPPStandaloneSimulator_run b d p pn name (w\<lparr>self := (self w)\<lparr>var_init := vi\<rparr>\<rparr>))) =
           device (snd (CPPStandaloneSimulator_run b d p pn name w))"
    and "heap (snd (CPPStandaloneSimulator_run b d p pn name (w\<lparr>self := (self w)\<lparr>var_init := vi\<rparr>\<rparr>))) =
           heap (snd (CPPStandaloneSimulator_run b d p pn name w))"
    and "rng (snd (CPPStandaloneSimulator_run b d p pn name (w\<lparr>self := (self w)\<lparr>var_init := vi\<rparr>\<rparr>))) =
           rng (snd (CPPStandaloneSimulator_run b d p pn name w))"
proof -
  let ?v = "w\<lparr>self := (self w)\<lparr>var_init := vi\<rparr>\<rparr>"
  have again: "run_again b (?v\<lparr>device := d1\<rparr>) =
      (fst (run_again b (w\<lparr>device := d1\<rparr>)),
       (snd (run_again b (w\<lparr>device := d1\<rparr>)))\<lparr>self := (self w)\<lparr>var_init := vi\<rparr>\<rparr>)" for d1
  proof (cases "generated d1")
    case None
    then show ?thesis by (simp add: run_again_def)
  next
    case (Some prog)
    obtain e3 s3 g3 where
      ex: "execute_program b prog (static_arrays d1) (rng w) = (e3, s3, g3)"
      by (cases "execute_program b prog (static_arrays d1) (rng w)") auto
    show ?thesis
      using Some ex by (cases e3) (simp_all add: run_again_def put_live_def put_network_def)
  qed
  have all: "CPPStandaloneSimulator_run b d p pn name ?v =
      (fst (CPPStandaloneSimulator_run b d p pn name w),
       (snd (CPPStandaloneSimulator_run b d p pn name w))\<lparr>self := (self w)\<lparr>var_init := vi\<rparr>\<rparr>)"
  proof (cases "networks (self w) name")
    case None
    then show ?thesis by (simp add: CPPStandaloneSimulator_run_def)
  next
    case (Some r)
    note reg = this
    show ?thesis
    proof (cases "params_init (self w)")
      case None
      with assms reg show ?thesis by (simp add: CPPStandaloneSimulator_run_def)
    next
      case (Some pinit)
      obtain e1 d1 where ss: "set_states b pinit p (device w) = (e1, d1)"
        by (cases "set_states b pinit p (device w)")
      show ?thesis
        using assms reg Some ss again[of d1]
        by (cases e1) (simp_all add: CPPStandaloneSimulator_run_def)
    qed
  qed
  show "fst (CPPStandaloneSimulator_run b d p pn name ?v) =
           fst (CPPStandaloneSimulator_run b d p pn name w)" by (simp add: all)
  show "device (snd (CPPStandaloneSimulator_run b d p pn name ?v)) =
           device (snd (CPPStandaloneSimulator_run b d p pn name w))" by (simp add: all)
  show "heap (snd (CPPStandaloneSimulator_run b d p pn name ?v)) =
           heap (snd (CPPStandaloneSimulator_run b d p pn name w))" by (simp add: all)
  show "rng (snd (CPPStandaloneSimulator_run b d p pn name ?v)) =
           rng (snd (CPPStandaloneSimulator_run b d p pn name w))" by (simp add: all)
qed

subsection \<open>The claims about the compiled strategy\<close>

lemma cpp_first_run_params:
  assumes nrun: "\<not> has_been_run (device w)" and reg: "networks (self w) name = Some r"
    and run: "CPPStandaloneSimulator_run b d p pn name w = (None, w')"
  shows "\<exists>pinit. params_init (self w') = Some pinit \<and> dom pinit = set pn \<and>
           (\<forall>n \<in> set pn. \<exists>ident val. pinit n = Some ident \<and> map_of p n = Some val \<and>
              Set_by_array (get_array_name b n) ident False \<in> set (main_queue (device w'))) \<and>
           (distinct pn \<and> inj_on pinit (set pn) \<longrightarrow>
              (\<forall>n \<in> set pn. \<exists>ident val. pinit n = Some ident \<and> map_of p n = Some val \<and>
                 static_arrays (device w') ident = Some (atleast_1d b val)))"
proof -
  from cpp_first_run[OF nrun reg run] obtain pinit d1 where
    ini: "initialize_neurons b pn (live (heap w r)) p (device w) = (Inr pinit, d1)"
    and self: "self w' = (self w)\<lparr>params_init := Some pinit\<rparr>"
    and st: "static_arrays (device w') = static_arrays d1"
    and q: "main_queue (device w') = main_queue d1 @ var_init_entries (var_init (self w))"
    by blast
  have loop: "initialize_neurons_loop b pn (live (heap w r)) p Map.empty (device w) =
                (Inr pinit, d1)"
    using ini by (simp add: initialize_neurons_def)
  have 1: "params_init (self w') = Some pinit" by (simp add: self)
  have 2: "dom pinit = set pn" using initialize_neurons_loop_dom[OF loop] by simp
  have 3: "\<forall>n \<in> set pn. \<exists>ident val. pinit n = Some ident \<and> map_of p n = Some val \<and>
              Set_by_array (get_array_name b n) ident False \<in> set (main_queue (device w'))"
  proof
    fix n assume "n \<in> set pn"
    from initialize_neurons_loop_queued[OF loop this] obtain ident val where
      "pinit n = Some ident" "map_of p n = Some val"
      "Set_by_array (get_array_name b n) ident False \<in> set (main_queue d1)" by blast
    then show "\<exists>ident val. pinit n = Some ident \<and> map_of p n = Some val \<and>
              Set_by_array (get_array_name b n) ident False \<in> set (main_queue (device w'))"
      by (simp add: q)
  qed
  have 4: "\<forall>n \<in> set pn. \<exists>ident val. pinit n = Some ident \<and> map_of p n = Some val \<and>
                 static_arrays (device w') ident = Some (atleast_1d b val)"
    if "distinct pn \<and> inj_on pinit (set pn)"
  proof
    fix n assume n: "n \<in> set pn"
    from that have dist: "distinct pn" and inj: "inj_on pinit (set pn)" by simp_all
    from initialize_neurons_loop_stored[OF loop dist inj n]
    show "\<exists>ident val. pinit n = Some ident \<and> map_of p n = Some val \<and>
                 static_arrays (device w') ident = Some (atleast_1d b val)"
      by (simp add: st)
  qed
  show ?thesis using 1 2 3 4 by blast
qed

lemma cpp_rerun_writes:
  assumes hrun: "has_been_run (device w)"
    and ok: "CPPStandaloneSimulator_run b d p pn name w = (None, w')"
    and dist: "distinct (map fst p)"
  shows "\<exists>pinit. params_init (self w) = Some pinit \<and>
           (inj_on pinit (fst ` set p) \<longrightarrow>
              (\<forall>(k, v) \<in> set p. \<exists>ident. pinit k = Some ident \<and>
                 static_arrays (device w') ident = Some (atleast_1d b v)))"
proof -
  from cpp_rerun_ok[OF hrun ok] obtain pinit d1 where
    pinit: "params_init (self w) = Some pinit"
    and ss: "set_states b pinit p (device w) = (None, d1)"
    and st: "static_arrays (device w') = static_arrays d1" by blast
  have "\<forall>(k, v) \<in> set p. \<exists>ident. pinit k = Some ident \<and>
                 static_arrays (device w') ident = Some (atleast_1d b v)"
    if inj: "inj_on pinit (fst ` set p)"
  proof (clarify)
    fix k v assume kv: "(k, v) \<in> set p"
    have f: "fst (set_states b pinit p (device w)) = None" by (simp add: ss)
    from set_states_writes[OF f dist inj kv]
    show "\<exists>ident. pinit k = Some ident \<and>
                 static_arrays (device w') ident = Some (atleast_1d b v)"
      by (simp add: ss st)
  qed
  with pinit show ?thesis by blast
qed

text \<open>
  C2. With the compiled strategy, a first \<open>run\<close> (the device has not been run) that
  succeeds initialises the parameters: \<open>self.params_init\<close> gets an identifier for every
  name of \<open>params_names\<close>, the write of each parameter is queued and (the names and
  their identifiers being distinct) its value is in the storage. It generates the
  program once, runs it, and leaves the device compiled-and-runnable. Every \<open>run\<close> on
  a device that has been run generates no code and leaves the flag, the queue, the
  generated program and the simulator as they are; it changes no storage but that of
  the identifiers of \<open>self.params_init\<close>. When it succeeds it has overwritten the storage
  of every parameter with the new value and invoked the already generated program once
  more, on that storage. Over any sequence of \<open>initialize\<close> and \<open>run\<close> calls the flag
  never goes back, and code is generated exactly once if the device ends up compiled
  and never otherwise.
\<close>

theorem compiled_exactly_once:
  "(\<not> has_been_run (device w) \<and> networks (self w) name = Some r \<and>
    CPPStandaloneSimulator_run b d p pn name w = (None, w') \<longrightarrow>
      has_been_run (device w') \<and>
      codegen_count (device w') = Suc (codegen_count (device w)) \<and>
      (\<exists>pinit. params_init (self w') = Some pinit \<and> dom pinit = set pn \<and>
         (\<forall>n \<in> set pn. \<exists>ident val. pinit n = Some ident \<and> map_of p n = Some val \<and>
            Set_by_array (get_array_name b n) ident False \<in> set (main_queue (device w'))) \<and>
         (distinct pn \<and> inj_on pinit (set pn) \<longrightarrow>
            (\<forall>n \<in> set pn. \<exists>ident val. pinit n = Some ident \<and> map_of p n = Some val \<and>
               static_arrays (device w') ident = Some (atleast_1d b val)))) \<and>
      (\<exists>prog. generated (device w') = Some prog \<and> prog_network prog = r \<and>
         prog_queue prog = main_queue (device w') \<and> prog_duration prog = d \<and>
         execute_program b prog (static_arrays (device w')) (rng w) =
           (None, live (heap w' r), rng w')))
   \<and> (has_been_run (device w) \<longrightarrow>
      has_been_run (device (snd (CPPStandaloneSimulator_run b d p pn name w))) \<and>
      codegen_count (device (snd (CPPStandaloneSimulator_run b d p pn name w))) =
        codegen_count (device w) \<and>
      main_queue (device (snd (CPPStandaloneSimulator_run b d p pn name w))) =
        main_queue (device w) \<and>
      generated (device (snd (CPPStandaloneSimulator_run b d p pn name w))) =
        generated (device w) \<and>
      self (snd (CPPStandaloneSimulator_run b d p pn name w)) = self w)
   \<and> (has_been_run (device w) \<and> params_init (self w) = Some pinit \<and> ident \<notin> ran pinit \<longrightarrow>
      static_arrays (device (snd (CPPStandaloneSimulator_run b d p pn name w))) ident =
        static_arrays (device w) ident)
   \<and> (has_been_run (device w) \<and> CPPStandaloneSimulator_run b d p pn name w = (None, w') \<and>
       distinct (map fst p) \<longrightarrow>
      (\<exists>pinit. params_init (self w) = Some pinit \<and>
         (inj_on pinit (fst ` set p) \<longrightarrow>
            (\<forall>(k, v) \<in> set p. \<exists>ident. pinit k = Some ident \<and>
               static_arrays (device w') ident = Some (atleast_1d b v)))) \<and>
      program_runs (device w') = Suc (program_runs (device w)) \<and>
      (\<exists>prog. generated (device w) = Some prog \<and>
         execute_program b prog (static_arrays (device w')) (rng w) =
           (None, live (heap w' (prog_network prog)), rng w')))
   \<and> (has_been_run (device w) \<longrightarrow>
      has_been_run (device (cpp_calls b cs w)) \<and>
      codegen_count (device (cpp_calls b cs w)) = codegen_count (device w))
   \<and> (\<not> has_been_run (device w) \<longrightarrow>
      codegen_count (device (cpp_calls b cs w)) =
        codegen_count (device w) + (if has_been_run (device (cpp_calls b cs w)) then 1 else 0))"
proof (intro conjI impI)
  assume a: "\<not> has_been_run (device w) \<and> networks (self w) name = Some r \<and>
    CPPStandaloneSimulator_run b d p pn name w = (None, w')"
  then have n: "\<not> has_been_run (device w)" and reg: "networks (self w) name = Some r"
    and r: "CPPStandaloneSimulator_run b d p pn name w = (None, w')" by simp_all
  note f = cpp_first_run[OF n reg r]
  show "has_been_run (device w')" using f by blast
  show "codegen_count (device w') = Suc (codegen_count (device w))" using f by blast
  show "\<exists>pinit. params_init (self w') = Some pinit \<and> dom pinit = set pn \<and>
         (\<forall>n \<in> set pn. \<exists>ident val. pinit n = Some ident \<and> map_of p n = Some val \<and>
            Set_by_array (get_array_name b n) ident False \<in> set (main_queue (device w'))) \<and>
         (distinct pn \<and> inj_on pinit (set pn) \<longrightarrow>
            (\<forall>n \<in> set pn. \<exists>ident val. pinit n = Some ident \<and> map_of p n = Some val \<and>
               static_arrays (device w') ident = Some (atleast_1d b val)))"
    by (rule cpp_first_run_params[OF n reg r])
  from f obtain pinit d1 where
    g: "generated (device w') =
             Some \<lparr>prog_network = r, prog_initial = live (heap w r),
                   prog_queue = main_queue (device w'), prog_duration = d\<rparr>"
    and ex: "execute_program b
             \<lparr>prog_network = r, prog_initial = live (heap w r),
              prog_queue = main_queue (device w'), prog_duration = d\<rparr>
             (static_arrays (device w')) (rng w) = (None, live (heap w' r), rng w')"
    by blast
  show "\<exists>prog. generated (device w') = Some prog \<and> prog_network prog = r \<and>
         prog_queue prog = main_queue (device w') \<and> prog_duration prog = d \<and>
         execute_program b prog (static_arrays (device w')) (rng w) =
           (None, live (heap w' r), rng w')"
    using g ex by simp
next
  assume h: "has_been_run (device w)"
  show "has_been_run (device (snd (CPPStandaloneSimulator_run b d p pn name w)))"
    by (rule cpp_rerun(2)[OF h])
  show "codegen_count (device (snd (CPPStandaloneSimulator_run b d p pn name w))) =
        codegen_count (device w)"
    by (rule cpp_rerun(3)[OF h])
  show "main_queue (device (snd (CPPStandaloneSimulator_run b d p pn name w))) =
        main_queue (device w)"
    by (rule cpp_rerun(4)[OF h])
  show "generated (device (snd (CPPStandaloneSimulator_run b d p pn name w))) =
        generated (device w)"
    by (rule cpp_rerun(5)[OF h])
  show "self (snd (CPPStandaloneSimulator_run b d p pn name w)) = self w"
    by (rule cpp_rerun(1)[OF h])
next
  assume "has_been_run (device w) \<and> params_init (self w) = Some pinit \<and> ident \<notin> ran pinit"
  then show "static_arrays (device (snd (CPPStandaloneSimulator_run b d p pn name w))) ident =
        static_arrays (device w) ident"
    by (simp add: cpp_rerun_storage)
next
  assume a: "has_been_run (device w) \<and> CPPStandaloneSimulator_run b d p pn name w = (None, w') \<and>
       distinct (map fst p)"
  then have h: "has_been_run (device w)"
    and ok: "CPPStandaloneSimulator_run b d p pn name w = (None, w')"
    and dist: "distinct (map fst p)" by simp_all
  show "\<exists>pinit. params_init (self w) = Some pinit \<and>
         (inj_on pinit (fst ` set p) \<longrightarrow>
            (\<forall>(k, v) \<in> set p. \<exists>ident. pinit k = Some ident \<and>
               static_arrays (device w') ident = Some (atleast_1d b v)))"
    by (rule cpp_rerun_writes[OF h ok dist])
  show "program_runs (device w') = Suc (program_runs (device w))"
    using cpp_rerun_ok[OF h ok] by blast
  show "\<exists>prog. generated (device w) = Some prog \<and>
         execute_program b prog (static_arrays (device w')) (rng w) =
           (None, live (heap w' (prog_network prog)), rng w')"
    using cpp_rerun_ok[OF h ok] by blast
next
  assume h: "has_been_run (device w)"
  show "has_been_run (device (cpp_calls b cs w))" by (rule cpp_calls_irreversible[OF h])
  show "codegen_count (device (cpp_calls b cs w)) = codegen_count (device w)"
    using cpp_calls_count[of b cs w] h by simp
next
  assume "\<not> has_been_run (device w)"
  then show "codegen_count (device (cpp_calls b cs w)) =
        codegen_count (device w) + (if has_been_run (device (cpp_calls b cs w)) then 1 else 0)"
    using cpp_calls_count[of b cs w] by simp
qed

subsection \<open>The concrete worlds\<close>

lemmas sample_defs =
  sample_cpp_registered_def sample_cpp_first_def sample_cpp_second_def sample_cpp_reinit_def
  CPPStandaloneSimulator_initialize_def CPPStandaloneSimulator_run_def
  sample_world_def sample_network_def sample_device_def sample_brian2_def
  Simulator_init_def network_contains_def initialize_neurons_def initialize_parameter_def
  device_static_array_def standalone_apply_var_init_def standalone_setattr_def
  standalone_network_run_def execute_program_def
  put_live_def put_network_def run_again_def set_parameter_value_def Let_def

lemma sample_cpp_registered_facts:
  "\<not> has_been_run (device sample_cpp_registered)"
  "codegen_count (device sample_cpp_registered) = 0"
  "networks (self sample_cpp_registered) ''fit'' = Some 0"
  "var_init (self sample_cpp_registered) = Some [(''g'', 2)]"
  "live (heap sample_cpp_registered 0) = ([(''v'', 0), (''g'', 1)], [])"
  "rng sample_cpp_registered = 0"
  by (simp_all add: sample_defs)

lemma sample_cpp_first_run:
  "CPPStandaloneSimulator_run sample_brian2 3 [(''v'', 5)] [''v''] ''fit'' sample_cpp_registered =
     (None, sample_cpp_first)"
  unfolding sample_cpp_first_def
  by (simp add: sample_defs)

lemma sample_cpp_first_facts:
  "has_been_run (device sample_cpp_first)"
  "codegen_count (device sample_cpp_first) = 1"
  "program_runs (device sample_cpp_first) = 1"
  "params_init (self sample_cpp_first) = Some [''v'' \<mapsto> ''_static_array__array_neurons_v'']"
  "static_arrays (device sample_cpp_first) ''_static_array__array_neurons_v'' = Some 5"
  "static_arrays (device sample_cpp_first) ''_static_array__array_neurons_g'' = None"
  "live (heap sample_cpp_first 0) = ([(''g'', 2), (''v'', 5), (''v'', 0), (''g'', 1)], [5, 5, 5])"
  "generated (device sample_cpp_first) =
     Some \<lparr>prog_network = 0, prog_initial = ([(''v'', 0), (''g'', 1)], []),
           prog_queue = [Set_by_array ''_array_neurons_v'' ''_static_array__array_neurons_v'' False,
                         Set_attribute ''g'' 2],
           prog_duration = 3\<rparr>"
  "rng sample_cpp_first = 0"
  "networks (self sample_cpp_first) ''fit'' = Some 0"
  by (simp_all add: sample_defs numeral_3_eq_3)

lemma sample_cpp_rerun_ok:
  "fst (CPPStandaloneSimulator_run sample_brian2 3 [(''v'', 6)] [''v''] ''fit'' sample_cpp_first) = None"
  by (simp add: sample_defs numeral_3_eq_3)

lemma sample_brian2_simps:
  "group_set_states sample_brian2 = sample_set_states"
  "group_setattr sample_brian2 = sample_setattr"
  "group_has_variable sample_brian2 = sample_has_variable"
  "network_advance sample_brian2 = sample_advance"
  "atleast_1d sample_brian2 v = v"
  "set_by_array sample_brian2 = sample_set_by_array"
  by (simp_all add: sample_brian2_def)

lemma replicate_3: "replicate 3 x = [x, x, x]"
  by (simp add: numeral_3_eq_3)

theorem compiled_exactly_once_witness:
  "has_been_run (device sample_cpp_first)
   \<and> codegen_count (device sample_cpp_first) = 1
   \<and> codegen_count (device (snd (CPPStandaloneSimulator_run sample_brian2 3 [(''v'', 6)] [''v'']
         ''fit'' sample_cpp_first))) = 1
   \<and> program_runs (device (snd (CPPStandaloneSimulator_run sample_brian2 3 [(''v'', 6)] [''v'']
         ''fit'' sample_cpp_first))) = 2
   \<and> static_arrays (device (snd (CPPStandaloneSimulator_run sample_brian2 3 [(''v'', 6)] [''v'']
         ''fit'' sample_cpp_first))) ''_static_array__array_neurons_v'' = Some 6
   \<and> static_arrays (device (snd (CPPStandaloneSimulator_run sample_brian2 3 [(''v'', 6)] [''v'']
         ''fit'' sample_cpp_first))) ''_static_array__array_neurons_g'' = None
   \<and> live (heap (snd (CPPStandaloneSimulator_run sample_brian2 3 [(''v'', 6)] [''v'']
         ''fit'' sample_cpp_first)) 0) =
       ([(''g'', 2), (''v'', 6), (''v'', 0), (''g'', 1)], [6, 6, 6])
   \<and> codegen_count (device (cpp_calls sample_brian2
         [Run 3 [(''v'', 6)] [''v''] ''fit'', Initialize 2 None ''other'',
          Run 3 [(''v'', 7)] [''v''] ''other''] sample_cpp_first)) = 1
   \<and> codegen_count (device (cpp_calls sample_brian2
         [Run 3 [(''v'', 5)] [''v''] ''fit'', Run 3 [(''v'', 6)] [''v''] ''fit'']
         sample_cpp_registered)) = 1"
proof -
  let ?w2 = "snd (CPPStandaloneSimulator_run sample_brian2 3 [(''v'', 6)] [''v''] ''fit''
                    sample_cpp_first)"
  let ?cs1 = "[Run 3 [(''v'', 6)] [''v''] ''fit'', Initialize 2 None ''other'',
               Run 3 [(''v'', 7)] [''v''] ''other''] :: (int, nat) call list"
  let ?cs2 = "[Run 3 [(''v'', 5)] [''v''] ''fit'', Run 3 [(''v'', 6)] [''v''] ''fit'']
               :: (int, nat) call list"
  let ?pinit = "[''v'' \<mapsto> ''_static_array__array_neurons_v'']"
  have rerun: "CPPStandaloneSimulator_run sample_brian2 3 [(''v'', 6)] [''v''] ''fit''
                 sample_cpp_first = (None, ?w2)"
    using sample_cpp_rerun_ok
    by (cases "CPPStandaloneSimulator_run sample_brian2 3 [(''v'', 6)] [''v''] ''fit''
                 sample_cpp_first") simp
  have notran: "''_static_array__array_neurons_g'' \<notin> ran ?pinit" by simp
  have "cpp_calls sample_brian2 ?cs2 sample_cpp_registered =
          cpp_calls sample_brian2 [Run 3 [(''v'', 6)] [''v''] ''fit''] sample_cpp_first"
    by (simp add: sample_cpp_first_run)
  then have fin: "has_been_run (device (cpp_calls sample_brian2 ?cs2 sample_cpp_registered))"
    by (simp only: cpp_calls_irreversible[OF sample_cpp_first_facts(1)])
  note A = compiled_exactly_once[where w = sample_cpp_registered and b = sample_brian2 and d = 3
      and p = "[(''v'', 5)]" and pn = "[''v'']" and name = "''fit''" and r = 0
      and w' = sample_cpp_first and cs = ?cs2]
  note B = compiled_exactly_once[where w = sample_cpp_first and b = sample_brian2 and d = 3
      and p = "[(''v'', 6)]" and pn = "[''v'']" and name = "''fit''" and w' = ?w2
      and pinit = ?pinit and ident = "''_static_array__array_neurons_g''" and cs = ?cs1]
  have 1: "has_been_run (device sample_cpp_first)"
    and 2: "codegen_count (device sample_cpp_first) = 1"
    using A sample_cpp_registered_facts sample_cpp_first_run by simp_all
  have 3: "codegen_count (device ?w2) = 1"
    using B sample_cpp_first_facts(1,2) by simp
  have 4: "program_runs (device ?w2) = 2"
    using B sample_cpp_first_facts(1,3) rerun by simp
  have 5: "static_arrays (device ?w2) ''_static_array__array_neurons_v'' = Some 6"
  proof -
    from B sample_cpp_first_facts(1) rerun
    have "\<exists>pinit. params_init (self sample_cpp_first) = Some pinit \<and>
         (inj_on pinit (fst ` set [(''v'', 6::int)]) \<longrightarrow>
            (\<forall>(k, v) \<in> set [(''v'', 6)]. \<exists>ident. pinit k = Some ident \<and>
               static_arrays (device ?w2) ident = Some (atleast_1d sample_brian2 v)))"
      by simp
    then show ?thesis
      by (simp add: sample_cpp_first_facts(4) sample_brian2_simps)
  qed
  have 6: "static_arrays (device ?w2) ''_static_array__array_neurons_g'' = None"
    using B sample_cpp_first_facts(1,4,6) notran by simp
  have 7: "live (heap ?w2 0) = ([(''g'', 2), (''v'', 6), (''v'', 0), (''g'', 1)], [6, 6, 6])"
  proof -
    from B sample_cpp_first_facts(1) rerun
    have "\<exists>prog. generated (device sample_cpp_first) = Some prog \<and>
         execute_program sample_brian2 prog (static_arrays (device ?w2)) (rng sample_cpp_first) =
           (None, live (heap ?w2 (prog_network prog)), rng ?w2)"
      by simp
    then show ?thesis
      by (simp add: sample_cpp_first_facts(8,9) execute_program_def 5 sample_brian2_simps
          replicate_3)
  qed
  have 8: "codegen_count (device (cpp_calls sample_brian2 ?cs1 sample_cpp_first)) = 1"
    using B sample_cpp_first_facts(1,2) by simp
  have 9: "codegen_count (device (cpp_calls sample_brian2 ?cs2 sample_cpp_registered)) = 1"
    using A sample_cpp_registered_facts(1,2) fin by simp
  show ?thesis using 1 2 3 4 5 6 7 8 9 by blast
qed

lemma execute_program_var_init_ok:
  assumes q: "prog_queue prog = q @ var_init_entries vi"
    and ok: "execute_program b prog storage g = (None, s, g')"
  shows "\<exists>s1 s2. run_queue b q storage (prog_initial prog) = (None, s1) \<and>
           apply_var_init b vi s1 = (None, s2) \<and>
           network_advance b (prog_duration prog) s2 g = (None, s, g')"
proof -
  obtain e1 s1 where rq: "run_queue b q storage (prog_initial prog) = (e1, s1)"
    by (cases "run_queue b q storage (prog_initial prog)")
  have e1: "e1 = None"
    using ok execute_program_var_init[OF q, of b storage g] rq by (cases e1) simp_all
  obtain e2 s2 where av: "apply_var_init b vi s1 = (e2, s2)"
    by (cases "apply_var_init b vi s1")
  have e2: "e2 = None"
    using ok execute_program_var_init[OF q, of b storage g] rq e1 av by (cases e2) simp_all
  have "network_advance b (prog_duration prog) s2 g = (None, s, g')"
    using ok execute_program_var_init[OF q, of b storage g] rq e1 av e2 by simp
  with rq e1 av e2 show ?thesis by blast
qed

text \<open>
  C3. On the compiled-and-runnable path \<open>var_init\<close> is not applied again: the run does
  not read \<open>self.var_init\<close> (its outcome and everything it leaves are the same whatever
  \<open>self.var_init\<close> holds) and changes neither it, nor the queue, nor the generated
  program; only the parameter storage is overwritten before the program runs again.
  The first compiled run queues the items of \<open>var_init\<close> behind the writes of the
  parameters and generates the program with them, and applies them before advancing.
  So the initial values set on the first run persist: a successful re-run loads the
  parameters from the storage as it is now, applies the \<open>var_init\<close> of the first run,
  and advances. The interpreted strategy applies the current \<open>self.var_init\<close> on every
  run, after restoring the snapshot and setting the parameters.
\<close>

theorem var_init_only_on_first_compiled_run:
  "(has_been_run (device w) \<longrightarrow>
      fst (CPPStandaloneSimulator_run b d p pn name (w\<lparr>self := (self w)\<lparr>var_init := vi\<rparr>\<rparr>)) =
        fst (CPPStandaloneSimulator_run b d p pn name w) \<and>
      device (snd (CPPStandaloneSimulator_run b d p pn name (w\<lparr>self := (self w)\<lparr>var_init := vi\<rparr>\<rparr>))) =
        device (snd (CPPStandaloneSimulator_run b d p pn name w)) \<and>
      heap (snd (CPPStandaloneSimulator_run b d p pn name (w\<lparr>self := (self w)\<lparr>var_init := vi\<rparr>\<rparr>))) =
        heap (snd (CPPStandaloneSimulator_run b d p pn name w)) \<and>
      rng (snd (CPPStandaloneSimulator_run b d p pn name (w\<lparr>self := (self w)\<lparr>var_init := vi\<rparr>\<rparr>))) =
        rng (snd (CPPStandaloneSimulator_run b d p pn name w)) \<and>
      var_init (self (snd (CPPStandaloneSimulator_run b d p pn name w))) = var_init (self w) \<and>
      main_queue (device (snd (CPPStandaloneSimulator_run b d p pn name w))) =
        main_queue (device w) \<and>
      generated (device (snd (CPPStandaloneSimulator_run b d p pn name w))) =
        generated (device w))
   \<and> (\<not> has_been_run (device w) \<and> networks (self w) name = Some r \<and>
       CPPStandaloneSimulator_run b d p pn name w = (None, w') \<longrightarrow>
      (\<exists>prog q0. generated (device w') = Some prog \<and> prog_network prog = r \<and>
         prog_initial prog = live (heap w r) \<and> prog_duration prog = d \<and>
         prog_queue prog = q0 @ var_init_entries (var_init (self w)) \<and>
         (\<exists>s1 s2. run_queue b q0 (static_arrays (device w')) (live (heap w r)) = (None, s1) \<and>
            apply_var_init b (var_init (self w)) s1 = (None, s2) \<and>
            network_advance b d s2 (rng w) = (None, live (heap w' r), rng w'))))
   \<and> (has_been_run (device w) \<and> generated (device w) = Some prog \<and>
       prog_queue prog = q @ var_init_entries vi0 \<and>
       CPPStandaloneSimulator_run b d p pn name w = (None, w') \<longrightarrow>
      (\<exists>s1 s2. run_queue b q (static_arrays (device w')) (prog_initial prog) = (None, s1) \<and>
         apply_var_init b vi0 s1 = (None, s2) \<and>
         network_advance b (prog_duration prog) s2 (rng w) =
           (None, live (heap w' (prog_network prog)), rng w')))
   \<and> (networks (self w) name = Some r \<and> stored (heap w r) = Some snap \<and>
       network_contains (heap w r) ''neurons'' \<and>
       group_set_states b p snap = (None, t2) \<and>
       apply_var_init b (var_init (self w)) t2 = (None, t3) \<longrightarrow>
      RuntimeSimulator_run b d p pn name w =
        (fst (network_advance b d t3 (rng w)),
         (put_live r (fst (snd (network_advance b d t3 (rng w)))) w)
           \<lparr>rng := snd (snd (network_advance b d t3 (rng w)))\<rparr>))"
proof (intro conjI impI)
  assume h: "has_been_run (device w)"
  show "fst (CPPStandaloneSimulator_run b d p pn name (w\<lparr>self := (self w)\<lparr>var_init := vi\<rparr>\<rparr>)) =
        fst (CPPStandaloneSimulator_run b d p pn name w)"
    by (rule cpp_rerun_ignores_var_init(1)[OF h])
  show "device (snd (CPPStandaloneSimulator_run b d p pn name (w\<lparr>self := (self w)\<lparr>var_init := vi\<rparr>\<rparr>))) =
        device (snd (CPPStandaloneSimulator_run b d p pn name w))"
    by (rule cpp_rerun_ignores_var_init(2)[OF h])
  show "heap (snd (CPPStandaloneSimulator_run b d p pn name (w\<lparr>self := (self w)\<lparr>var_init := vi\<rparr>\<rparr>))) =
        heap (snd (CPPStandaloneSimulator_run b d p pn name w))"
    by (rule cpp_rerun_ignores_var_init(3)[OF h])
  show "rng (snd (CPPStandaloneSimulator_run b d p pn name (w\<lparr>self := (self w)\<lparr>var_init := vi\<rparr>\<rparr>))) =
        rng (snd (CPPStandaloneSimulator_run b d p pn name w))"
    by (rule cpp_rerun_ignores_var_init(4)[OF h])
  show "var_init (self (snd (CPPStandaloneSimulator_run b d p pn name w))) = var_init (self w)"
    by (simp add: cpp_rerun(1)[OF h])
  show "main_queue (device (snd (CPPStandaloneSimulator_run b d p pn name w))) =
        main_queue (device w)"
    by (rule cpp_rerun(4)[OF h])
  show "generated (device (snd (CPPStandaloneSimulator_run b d p pn name w))) =
        generated (device w)"
    by (rule cpp_rerun(5)[OF h])
next
  assume a: "\<not> has_been_run (device w) \<and> networks (self w) name = Some r \<and>
       CPPStandaloneSimulator_run b d p pn name w = (None, w')"
  then have n: "\<not> has_been_run (device w)" and reg: "networks (self w) name = Some r"
    and run: "CPPStandaloneSimulator_run b d p pn name w = (None, w')" by simp_all
  let ?prog = "\<lparr>prog_network = r, prog_initial = live (heap w r),
                prog_queue = main_queue (device w'), prog_duration = d\<rparr>"
  from cpp_first_run[OF n reg run] obtain pinit d1 where
    ini: "initialize_neurons b pn (live (heap w r)) p (device w) = (Inr pinit, d1)"
    and q: "main_queue (device w') = main_queue d1 @ var_init_entries (var_init (self w))"
    and g: "generated (device w') = Some ?prog"
    and ex: "execute_program b ?prog (static_arrays (device w')) (rng w) =
               (None, live (heap w' r), rng w')"
    by blast
  have pq: "prog_queue ?prog = main_queue d1 @ var_init_entries (var_init (self w))"
    by (simp add: q)
  from execute_program_var_init_ok[OF pq ex]
  have "\<exists>s1 s2. run_queue b (main_queue d1) (static_arrays (device w')) (live (heap w r)) = (None, s1) \<and>
            apply_var_init b (var_init (self w)) s1 = (None, s2) \<and>
            network_advance b d s2 (rng w) = (None, live (heap w' r), rng w')"
    by simp
  with g pq show "\<exists>prog q0. generated (device w') = Some prog \<and> prog_network prog = r \<and>
         prog_initial prog = live (heap w r) \<and> prog_duration prog = d \<and>
         prog_queue prog = q0 @ var_init_entries (var_init (self w)) \<and>
         (\<exists>s1 s2. run_queue b q0 (static_arrays (device w')) (live (heap w r)) = (None, s1) \<and>
            apply_var_init b (var_init (self w)) s1 = (None, s2) \<and>
            network_advance b d s2 (rng w) = (None, live (heap w' r), rng w'))"
    apply (intro exI[of _ ?prog] exI[of _ "main_queue d1"])
    apply simp
    done
next
  assume a: "has_been_run (device w) \<and> generated (device w) = Some prog \<and>
       prog_queue prog = q @ var_init_entries vi0 \<and>
       CPPStandaloneSimulator_run b d p pn name w = (None, w')"
  then have h: "has_been_run (device w)" and g: "generated (device w) = Some prog"
    and pq: "prog_queue prog = q @ var_init_entries vi0"
    and run: "CPPStandaloneSimulator_run b d p pn name w = (None, w')" by simp_all
  from cpp_rerun_ok[OF h run] g
  have ex: "execute_program b prog (static_arrays (device w')) (rng w) =
             (None, live (heap w' (prog_network prog)), rng w')"
    by auto
  show "\<exists>s1 s2. run_queue b q (static_arrays (device w')) (prog_initial prog) = (None, s1) \<and>
         apply_var_init b vi0 s1 = (None, s2) \<and>
         network_advance b (prog_duration prog) s2 (rng w) =
           (None, live (heap w' (prog_network prog)), rng w')"
    by (rule execute_program_var_init_ok[OF pq ex])
next
  assume a: "networks (self w) name = Some r \<and> stored (heap w r) = Some snap \<and>
       network_contains (heap w r) ''neurons'' \<and>
       group_set_states b p snap = (None, t2) \<and>
       apply_var_init b (var_init (self w)) t2 = (None, t3)"
  then have F: "from_store_point b d p (var_init (self w)) snap (rng w) =
                  network_advance b d t3 (rng w)"
    by (simp add: from_store_point_def)
  from a show "RuntimeSimulator_run b d p pn name w =
        (fst (network_advance b d t3 (rng w)),
         (put_live r (fst (snd (network_advance b d t3 (rng w)))) w)
           \<lparr>rng := snd (snd (network_advance b d t3 (rng w)))\<rparr>)"
    using RuntimeSimulator_run_registered[of w name r snap b d p pn] by (simp add: F)
qed

text \<open>
  C10. A \<open>run\<close> of the standalone simulator on a registered name, with a device that has
  already been run and a simulator instance whose \<open>params_init\<close> was never assigned,
  raises \<open>AttributeError\<close> and changes nothing. \<open>self.params_init\<close> is assigned only by
  a \<open>run\<close> that takes the first-run branch: a call that changes it is a \<open>run\<close> on a
  device that has not been run.
\<close>

theorem rerun_without_first_run_fails:
  "(has_been_run (device w) \<and> params_init (self w) = None \<and> networks (self w) name = Some r \<longrightarrow>
      CPPStandaloneSimulator_run b d p pn name w = (Some AttributeError, w))
   \<and> (params_init (self (snd (cpp_call b c w))) \<noteq> params_init (self w) \<longrightarrow>
      \<not> has_been_run (device w) \<and> (\<exists>d p pn name. c = Run d p pn name))"
proof (intro conjI impI)
  assume "has_been_run (device w) \<and> params_init (self w) = None \<and> networks (self w) name = Some r"
  then show "CPPStandaloneSimulator_run b d p pn name w = (Some AttributeError, w)"
    by (simp add: CPPStandaloneSimulator_run_def)
next
  assume a: "params_init (self (snd (cpp_call b c w))) \<noteq> params_init (self w)"
  show "\<not> has_been_run (device w)" using a cpp_call_params_init[of w c b] by blast
  show "\<exists>d p pn name. c = Run d p pn name" using a cpp_call_params_init[of w c b] by blast
qed

lemma sample_cpp_second_facts:
  "has_been_run (device sample_cpp_second)"
  "params_init (self sample_cpp_second) = None"
  "networks (self sample_cpp_second) ''fit'' = Some 0"
  by (simp_all add: sample_defs)

theorem rerun_without_first_run_fails_witness:
  "CPPStandaloneSimulator_run sample_brian2 3 [(''g'', 6)] [''g''] ''fit'' sample_cpp_second =
     (Some AttributeError, sample_cpp_second)
   \<and> \<not> has_been_run (device sample_cpp_registered)"
proof -
  have changed: "params_init (self (snd (cpp_call sample_brian2
        (Run 3 [(''v'', 5)] [''v''] ''fit'') sample_cpp_registered))) \<noteq>
      params_init (self sample_cpp_registered)"
    by (simp add: sample_cpp_first_run sample_cpp_first_facts(4)) (simp add: sample_defs)
  show ?thesis
    using rerun_without_first_run_fails[where w = sample_cpp_second and name = "''fit''"
        and r = 0 and b = sample_brian2 and d = 3 and p = "[(''g'', 6)]" and pn = "[''g'']"
        and c = "Run 3 [(''v'', 5)] [''v''] ''fit''"]
      rerun_without_first_run_fails[where w = sample_cpp_registered and name = "''fit''"
        and r = 0 and b = sample_brian2 and d = 3 and p = "[(''g'', 6)]" and pn = "[''g'']"
        and c = "Run 3 [(''v'', 5)] [''v''] ''fit''"]
      sample_cpp_second_facts changed
    by simp
qed

lemma sample_cpp_reinit_facts:
  "has_been_run (device sample_cpp_reinit)"
  "var_init (self sample_cpp_reinit) = Some [(''g'', 9)]"
  "generated (device sample_cpp_reinit) = generated (device sample_cpp_first)"
  "rng sample_cpp_reinit = 0"
  "params_init (self sample_cpp_reinit) = Some [''v'' \<mapsto> ''_static_array__array_neurons_v'']"
  by (simp_all add: sample_cpp_reinit_def CPPStandaloneSimulator_initialize_def Let_def
      sample_cpp_first_facts network_contains_def sample_world_def sample_network_def
      sample_cpp_first_def sample_cpp_registered_def CPPStandaloneSimulator_run_def
      sample_device_def sample_brian2_def Simulator_init_def initialize_neurons_def
      initialize_parameter_def device_static_array_def standalone_apply_var_init_def
      standalone_setattr_def standalone_network_run_def execute_program_def put_live_def
      put_network_def)

lemma sample_cpp_reinit_rerun_ok:
  "fst (CPPStandaloneSimulator_run sample_brian2 3 [(''v'', 6)] [''v''] ''fit'' sample_cpp_reinit) = None"
  by (simp add: sample_defs)

theorem var_init_only_on_first_compiled_run_witness:
  "var_init (self sample_cpp_reinit) = Some [(''g'', 9)]
   \<and> live (heap (snd (CPPStandaloneSimulator_run sample_brian2 3 [(''v'', 6)] [''v''] ''fit''
                      sample_cpp_reinit)) 0) =
       ([(''g'', 2), (''v'', 6), (''v'', 0), (''g'', 1)], [6, 6, 6])
   \<and> heap (snd (CPPStandaloneSimulator_run sample_brian2 3 [(''v'', 6)] [''v''] ''fit''
               (sample_cpp_first\<lparr>self := (self sample_cpp_first)\<lparr>var_init := Some [(''g'', 9)]\<rparr>\<rparr>))) =
     heap (snd (CPPStandaloneSimulator_run sample_brian2 3 [(''v'', 6)] [''v''] ''fit''
               sample_cpp_first))
   \<and> (\<exists>prog q0. generated (device sample_cpp_first) = Some prog \<and>
         prog_queue prog = q0 @ var_init_entries (Some [(''g'', 2)]))
   \<and> RuntimeSimulator_run sample_brian2 3 [(''g'', 5)] [''g''] ''fit'' sample_registered =
       (None, (put_live 0 ([(''v'', 2), (''g'', 5), (''v'', 0), (''g'', 1)], [2, 2, 2])
                 sample_registered)\<lparr>rng := 0\<rparr>)"
proof -
  let ?run = "CPPStandaloneSimulator_run sample_brian2 3 [(''v'', 6)] [''v''] ''fit''"
  let ?w4 = "snd (?run sample_cpp_reinit)"
  let ?prog = "\<lparr>prog_network = 0, prog_initial = ([(''v'', 0), (''g'', 1)], []),
           prog_queue = [Set_by_array ''_array_neurons_v'' ''_static_array__array_neurons_v'' False,
                         Set_attribute ''g'' 2],
           prog_duration = 3\<rparr> :: (sample_state, int, nat) program"
  have rerun: "?run sample_cpp_reinit = (None, ?w4)"
    using sample_cpp_reinit_rerun_ok by (cases "?run sample_cpp_reinit") simp
  have gen: "generated (device sample_cpp_reinit) = Some ?prog"
    by (simp add: sample_cpp_reinit_facts(3) sample_cpp_first_facts(8))
  have pq: "prog_queue ?prog =
      [Set_by_array ''_array_neurons_v'' ''_static_array__array_neurons_v'' False] @
      var_init_entries (Some [(''g'', 2)])"
    by (simp add: var_init_entries_def)
  have stored6: "static_arrays (device ?w4) ''_static_array__array_neurons_v'' = Some 6"
  proof -
    have dist: "distinct (map fst [(''v'', 6::int)])" by simp
    from cpp_rerun_writes[OF sample_cpp_reinit_facts(1) rerun dist]
    show ?thesis by (simp add: sample_cpp_reinit_facts(5) sample_brian2_simps)
  qed
  note A = var_init_only_on_first_compiled_run[where w = sample_cpp_reinit and b = sample_brian2
      and d = 3 and p = "[(''v'', 6)]" and pn = "[''v'']" and name = "''fit''"
      and prog = ?prog
      and q = "[Set_by_array ''_array_neurons_v'' ''_static_array__array_neurons_v'' False]"
      and ?vi0.0 = "Some [(''g'', 2)]" and w' = ?w4]
  note B = var_init_only_on_first_compiled_run[where w = sample_cpp_first and b = sample_brian2
      and d = 3 and p = "[(''v'', 6)]" and pn = "[''v'']" and name = "''fit''"
      and vi = "Some [(''g'', 9)]"]
  note C = var_init_only_on_first_compiled_run[where w = sample_cpp_registered
      and b = sample_brian2 and d = 3 and p = "[(''v'', 5)]" and pn = "[''v'']"
      and name = "''fit''" and r = 0 and w' = sample_cpp_first]
  note D = var_init_only_on_first_compiled_run[where w = sample_registered
      and b = sample_brian2 and d = 3 and p = "[(''g'', 5)]" and pn = "[''g'']"
      and name = "''fit''" and r = 0 and snap = "([(''v'', 0), (''g'', 1)], [])"
      and ?t2.0 = "([(''g'', 5), (''v'', 0), (''g'', 1)], [])"
      and ?t3.0 = "([(''v'', 2), (''g'', 5), (''v'', 0), (''g'', 1)], [])"]
  have 1: "var_init (self sample_cpp_reinit) = Some [(''g'', 9)]"
    by (rule sample_cpp_reinit_facts(2))
  have 2: "live (heap ?w4 0) = ([(''g'', 2), (''v'', 6), (''v'', 0), (''g'', 1)], [6, 6, 6])"
  proof -
    from A sample_cpp_reinit_facts(1) gen pq rerun
    have "\<exists>s1 s2. run_queue sample_brian2
             [Set_by_array ''_array_neurons_v'' ''_static_array__array_neurons_v'' False]
             (static_arrays (device ?w4)) (prog_initial ?prog) = (None, s1) \<and>
         apply_var_init sample_brian2 (Some [(''g'', 2)]) s1 = (None, s2) \<and>
         network_advance sample_brian2 (prog_duration ?prog) s2 (rng sample_cpp_reinit) =
           (None, live (heap ?w4 (prog_network ?prog)), rng ?w4)"
      by blast
    then show ?thesis
      by (auto simp: stored6 sample_brian2_simps apply_var_init_def replicate_3)
  qed
  have 3: "heap (snd (?run (sample_cpp_first\<lparr>self := (self sample_cpp_first)\<lparr>var_init := Some [(''g'', 9)]\<rparr>\<rparr>))) =
     heap (snd (?run sample_cpp_first))"
    using B sample_cpp_first_facts(1) by blast
  have 4: "\<exists>prog q0. generated (device sample_cpp_first) = Some prog \<and>
         prog_queue prog = q0 @ var_init_entries (Some [(''g'', 2)])"
  proof -
    from C sample_cpp_registered_facts(1,3) sample_cpp_first_run
    have "\<exists>prog q0. generated (device sample_cpp_first) = Some prog \<and> prog_network prog = 0 \<and>
         prog_initial prog = live (heap sample_cpp_registered 0) \<and> prog_duration prog = 3 \<and>
         prog_queue prog = q0 @ var_init_entries (var_init (self sample_cpp_registered)) \<and>
         (\<exists>s1 s2. run_queue sample_brian2 q0 (static_arrays (device sample_cpp_first))
                     (live (heap sample_cpp_registered 0)) = (None, s1) \<and>
            apply_var_init sample_brian2 (var_init (self sample_cpp_registered)) s1 = (None, s2) \<and>
            network_advance sample_brian2 3 s2 (rng sample_cpp_registered) =
              (None, live (heap sample_cpp_first 0), rng sample_cpp_first))"
      by blast
    then show ?thesis unfolding sample_cpp_registered_facts(4) by blast
  qed
  have t2: "group_set_states sample_brian2 [(''g'', 5)] ([(''v'', 0), (''g'', 1)], []) =
              (None, ([(''g'', 5), (''v'', 0), (''g'', 1)], []))"
    by (simp add: sample_brian2_simps)
  have t3: "apply_var_init sample_brian2 (Some [(''v'', 2)]) ([(''g'', 5), (''v'', 0), (''g'', 1)], []) =
              (None, ([(''v'', 2), (''g'', 5), (''v'', 0), (''g'', 1)], []))"
    by (simp add: sample_brian2_simps apply_var_init_def)
  have 5: "RuntimeSimulator_run sample_brian2 3 [(''g'', 5)] [''g''] ''fit'' sample_registered =
       (None, (put_live 0 ([(''v'', 2), (''g'', 5), (''v'', 0), (''g'', 1)], [2, 2, 2])
                 sample_registered)\<lparr>rng := 0\<rparr>)"
    using D sample_registered_facts t2 t3
    by (simp add: sample_brian2_simps replicate_3)
  show ?thesis using 1 2 3 4 5 by blast
qed

section \<open>Properties of the metric engine\<close>

text \<open>
  C7. The firing rate of an event sequence with at least 2 events is (event-count - 1)
  divided by the span between its first and its last event; in particular
  \<open>firing_rate [1, 2, 3] = 1\<close> and \<open>firing_rate [1, 1.2, 1.4, 1.6, 1.8] = 5\<close>.
\<close>

theorem firing_rate_count_over_span:
  "(2 \<le> length spikes \<longrightarrow>
      firing_rate spikes = Some (real (length spikes - 1) / (last spikes - hd spikes)))
   \<and> firing_rate [1, 2, 3] = Some 1
   \<and> firing_rate [1, 1.2, 1.4, 1.6, 1.8] = Some 5"
  by (simp add: firing_rate_def)

theorem firing_rate_count_over_span_witness:
  "firing_rate [1.1, 1.2, 1.3, 1.4, 1.5] = Some 10"
  using firing_rate_count_over_span[of "[1.1, 1.2, 1.3, 1.4, 1.5]"] by simp

lemma squared_difference_self: "sum_list (map2 (\<lambda>x y. (x - y)\<^sup>2) ys ys) = (0::real)"
  by (induction ys) simp_all

lemma mean_squared_difference_self:
  "ys \<noteq> [] \<Longrightarrow> mean_squared_difference ys ys = Some 0"
  by (simp add: mean_squared_difference_def squared_difference_self)

lemma those_replicate: "those (replicate n (Some x)) = Some (replicate n x)"
  by (induction n) simp_all

text \<open>
  C6. The continuous-signal metric of an array against itself is the zero matrix: for
  \<open>X\<close> with one row per channel (so that there is one candidate), a positive \<open>dt\<close> and
  rows that have a sample at the index of \<open>t_start\<close>, \<open>compute_features X X\<close> returns
  the \<open>n_channels \<times> 1\<close> matrix of zeros: the mean squared difference of every series
  against itself is exactly 0.
\<close>

theorem compute_features_self_zero:
  assumes chan: "0 < n_channels" and len: "length X = n_channels" and dt: "0 < dt"
    and rows: "\<forall>row \<in> set X. nat \<lfloor>t_start / dt\<rfloor> < length row"
  shows "compute_features X X n_channels dt t_start = Some (replicate n_channels [0])"
proof -
  let ?start = "nat \<lfloor>t_start / dt\<rfloor>"
  have cand: "length X div n_channels = 1" using chan len by simp
  have row: "mean_squared_difference (drop ?start (X ! c)) (drop ?start (X ! c)) = Some 0"
    if "c < n_channels" for c
  proof -
    from that len have "X ! c \<in> set X" by simp
    with rows have "?start < length (X ! c)" by blast
    then have "drop ?start (X ! c) \<noteq> []" by simp
    then show ?thesis by (rule mean_squared_difference_self)
  qed
  have "map (\<lambda>channel.
             those (map (\<lambda>candidate.
               mean_squared_difference
                 (drop ?start (X ! (channel * 1 + candidate)))
                 (drop ?start (X ! channel)))
               [0..<1]))
             [0..<n_channels] = map (\<lambda>channel. Some [0]) [0..<n_channels]"
    by (rule map_cong) (simp_all add: row)
  then have inner: "map (\<lambda>channel.
             those (map (\<lambda>candidate.
               mean_squared_difference
                 (drop ?start (X ! (channel * 1 + candidate)))
                 (drop ?start (X ! channel)))
               [0..<1]))
             [0..<n_channels] = replicate n_channels (Some [0])"
    by (simp only: map_replicate_const length_upt diff_zero)
  have ok: "\<not> (n_channels = 0 \<or> dt \<le> 0 \<or> length X \<noteq> n_channels
         \<or> length X mod n_channels \<noteq> 0)"
    using chan len dt by simp
  show ?thesis
    unfolding compute_features_def Let_def cand
    using ok inner by (simp only: if_False those_replicate)
qed

theorem compute_features_self_zero_witness:
  "compute_features [[1, 2], [3, 4]] [[1, 2], [3, 4]] 2 0.1 0 = Some [[0], [0]]"
proof -
  have rows: "\<forall>row \<in> set [[1, 2], [3, 4::real]]. nat \<lfloor>0 / (0.1::real)\<rfloor> < length row"
    by simp
  show ?thesis
    using compute_features_self_zero[of 2 "[[1, 2], [3, 4]]" "0.1" 0, OF _ _ _ rows]
    by (simp add: numeral_2_eq_2)
qed

text \<open>
  C8. Constructing the event-train metric engine fails, at construction, when the
  coincidence window or the total time is missing or is a bare number without a time
  unit; with both arguments carrying a time unit the construction succeeds and returns
  the engine. An engine exists only for two quantities of time.
\<close>

theorem GammaFactor_validates_at_construction:
  "isl (GammaFactor None time)
   \<and> isl (GammaFactor delta None)
   \<and> isl (GammaFactor (Some (Quantity x Dimensionless)) time)
   \<and> isl (GammaFactor delta (Some (Quantity y Dimensionless)))
   \<and> GammaFactor (Some (Quantity x Time)) (Some (Quantity y Time)) =
       Inr (GammaFactorEngine (Quantity x Time) (Quantity y Time))
   \<and> ((\<exists>g. GammaFactor delta time = Inr g) \<longleftrightarrow>
       (\<exists>a c. delta = Some (Quantity a Time) \<and> time = Some (Quantity c Time)))"
proof -
  have 1: "isl (GammaFactor None time)"
    by (cases time) (simp_all add: GammaFactor_def)
  have 2: "isl (GammaFactor delta None)"
    by (cases delta) (simp_all add: GammaFactor_def)
  have 3: "isl (GammaFactor (Some (Quantity x Dimensionless)) time)"
    by (simp add: GammaFactor_def)
  have 4: "isl (GammaFactor delta (Some (Quantity y Dimensionless)))"
    by (simp add: GammaFactor_def)
  have 5: "GammaFactor (Some (Quantity x Time)) (Some (Quantity y Time)) =
       Inr (GammaFactorEngine (Quantity x Time) (Quantity y Time))"
    by (simp add: GammaFactor_def)
  have 6: "(\<exists>g. GammaFactor delta time = Inr g) \<longleftrightarrow>
       (\<exists>a c. delta = Some (Quantity a Time) \<and> time = Some (Quantity c Time))"
  proof (cases delta)
    case None
    then show ?thesis using 1 by (cases "GammaFactor None time") auto
  next
    case (Some q)
    note dq = this
    obtain a da where q: "q = Quantity a da" by (cases q)
    show ?thesis
    proof (cases time)
      case None
      then show ?thesis using 2 by (cases "GammaFactor delta None") auto
    next
      case (Some q')
      obtain c dc where q': "q' = Quantity c dc" by (cases q')
      show ?thesis by (simp add: dq Some q q' GammaFactor_def)
    qed
  qed
  show ?thesis using 1 2 3 4 5 6 by blast
qed

theorem GammaFactor_validates_at_construction_witness:
  "isl (GammaFactor None None)
   \<and> isl (GammaFactor (Some (Quantity 10 Dimensionless)) None)
   \<and> isl (GammaFactor None (Some (Quantity 10 Dimensionless)))
   \<and> GammaFactor (Some (Quantity 0.01 Time)) (Some (Quantity 0.01 Time)) =
       Inr (GammaFactorEngine (Quantity 0.01 Time) (Quantity 0.01 Time))"
  using GammaFactor_validates_at_construction[of None None 10 "0.01"]
    GammaFactor_validates_at_construction[of None "Some (Quantity 10 Dimensionless)" "0.01" 10]
    GammaFactor_validates_at_construction[of "Some (Quantity 10 Dimensionless)" None "0.01" "0.01"]
  by blast

end
